theory Spec2Isabelle
  imports Main
begin

section \<open>Python values used by kb_python\<close>

text \<open>
  Strings are \<open>char list\<close>; the model takes every character to be ASCII, so
  \<open>str.upper\<close>, \<open>str.isspace\<close> and \<open>str.strip\<close> are the ASCII parts of
  Python's functions.
\<close>

definition upper_char :: "char \<Rightarrow> char" where
  "upper_char c =
     (case map_of (zip ''abcdefghijklmnopqrstuvwxyz'' ''ABCDEFGHIJKLMNOPQRSTUVWXYZ'') c of
        Some u \<Rightarrow> u
      | None \<Rightarrow> c)"

definition upper :: "string \<Rightarrow> string" where
  "upper s = map upper_char s"

text \<open>
  A character is a code point below 256. \<open>str.isspace\<close> on one character: codes
  9-13, 28-32, 133 and 160.
\<close>

definition is_space_char :: "char \<Rightarrow> bool" where
  "is_space_char c =
     (c \<in> set [CHR 0x09, CHR 0x0A, CHR 0x0B, CHR 0x0C, CHR 0x0D,
                 CHR 0x1C, CHR 0x1D, CHR 0x1E, CHR 0x1F, CHR 0x20, CHR 0x85, CHR 0xA0])"

definition isspace :: "string \<Rightarrow> bool" where
  "isspace s = (s \<noteq> [] \<and> list_all is_space_char s)"

definition strip :: "string \<Rightarrow> string" where
  "strip s = rev (dropWhile is_space_char (rev (dropWhile is_space_char s)))"

text \<open>\<open>str.split(sep)\<close> for a one-character separator: every occurrence splits.\<close>

fun split_acc :: "char \<Rightarrow> string \<Rightarrow> string \<Rightarrow> string list" where
  "split_acc sep cur [] = [rev cur]"
| "split_acc sep cur (c # cs) =
     (if c = sep then rev cur # split_acc sep [] cs else split_acc sep (c # cur) cs)"

definition split :: "char \<Rightarrow> string \<Rightarrow> string list" where
  "split sep s = split_acc sep [] s"

text \<open>
  A file opened for reading in text mode (\<open>open(path, 'r')\<close>, and \<open>open_as_text\<close> of
  \<open>utils\<close>, which opens in text mode too) has universal newlines: a carriage return
  followed by a line feed, and a carriage return alone, are read as one line feed.
  \<open>after_cr\<close> says that the character before was a carriage return.
\<close>

fun newlines_from :: "bool \<Rightarrow> string \<Rightarrow> string" where
  "newlines_from after_cr [] = []"
| "newlines_from after_cr (c # cs) =
     (if c = CHR 0x0D then CHR 0x0A # newlines_from True cs
      else if c = CHR 0x0A \<and> after_cr then newlines_from False cs
      else c # newlines_from False cs)"

definition universal_newlines :: "string \<Rightarrow> string" where
  "universal_newlines content = newlines_from False content"

text \<open>
  Iterating over a text file yields its lines, each with its newline (the last one
  possibly without).
\<close>

fun lines_acc :: "string \<Rightarrow> string \<Rightarrow> string list" where
  "lines_acc cur [] = (if cur = [] then [] else [rev cur])"
| "lines_acc cur (c # cs) =
     (if c = CHR 0x0A then rev (c # cur) # lines_acc [] cs else lines_acc (c # cur) cs)"

definition file_lines :: "string \<Rightarrow> string list" where
  "file_lines content = lines_acc [] (universal_newlines content)"

text \<open>\<open>str(i)\<close> for a natural number, as used by the f-strings.\<close>

definition digit_char :: "nat \<Rightarrow> char" where
  "digit_char d = ''0123456789'' ! d"

fun str_of_nat :: "nat \<Rightarrow> string" where
  "str_of_nat n = (if n < 10 then [digit_char n] else str_of_nat (n div 10) @ [digit_char (n mod 10)])"

declare str_of_nat.simps [simp del]

definition str_of_int :: "int \<Rightarrow> string" where
  "str_of_int i = (if i < 0 then CHR ''-'' # str_of_nat (nat (- i)) else str_of_nat (nat i))"

subsection \<open>\<open>os.path\<close> (posixpath)\<close>

definition path_join :: "string \<Rightarrow> string \<Rightarrow> string" where
  "path_join a b =
     (if b \<noteq> [] \<and> hd b = CHR ''/'' then b
      else if a = [] \<or> last a = CHR ''/'' then a @ b
      else a @ ''/'' @ b)"

text \<open>The part after the last slash, and the part up to it.\<close>

definition basename :: "string \<Rightarrow> string" where
  "basename p = rev (takeWhile (\<lambda>c. c \<noteq> CHR ''/'') (rev p))"

definition dirname :: "string \<Rightarrow> string" where
  "dirname p =
     (let head = rev (dropWhile (\<lambda>c. c \<noteq> CHR ''/'') (rev p)) in
      if head \<noteq> [] \<and> \<not> list_all (\<lambda>c. c = CHR ''/'') head
      then rev (dropWhile (\<lambda>c. c = CHR ''/'') (rev head)) else head)"

subsection \<open>Command-line arguments, dictionaries, errors, events\<close>

text \<open>
  A command list holds strings and integers (\<open>threads\<close>, \<open>l\<close>, \<open>s\<close>,
  \<open>threshold\<close>), and \<open>None\<close> when a binary path was never set; the
  arguments of the helpers may also be a dictionary.
\<close>

datatype arg = Str string | Num int | PyNone | PyDict

text \<open>A dictionary keeps insertion order; its values are paths, \<open>None\<close> or dictionaries.\<close>

datatype val = Path string | NoneV | Dict "(string \<times> val) list"

type_synonym pydict = "(string \<times> val) list"

primrec dict_set :: "string \<Rightarrow> val \<Rightarrow> pydict \<Rightarrow> pydict" where
  "dict_set k v [] = [(k, v)]"
| "dict_set k v (p # ps) = (if fst p = k then (k, v) # ps else p # dict_set k v ps)"

definition dict_update :: "pydict \<Rightarrow> pydict \<Rightarrow> pydict" where
  "dict_update d other = fold (\<lambda>kv acc. dict_set (fst kv) (snd kv) acc) other d"

definition dict_literal :: "pydict \<Rightarrow> pydict" where
  "dict_literal items = dict_update [] items"

definition dict_get :: "pydict \<Rightarrow> string \<Rightarrow> val" where
  "dict_get d k = (case map_of d k of None \<Rightarrow> NoneV | Some v \<Rightarrow> v)"

datatype error =
    Exception string
  | NotExecutableException string
  | KeyError string
  | IndexError
  | ValueError
  | AttributeError
  | TypeError
  | UnboundLocalError string

text \<open>
  What a run does to the outside world, in order: \<open>Run\<close> is
  \<open>run_executable(command)\<close>; \<open>Ext\<close> is a call of a helper that is not part of
  \<open>count.py\<close> (\<open>utils\<close>, \<open>STATS\<close>, \<open>render_report\<close>, \<open>scipy.io\<close>, anndata) with its
  path arguments; \<open>Write\<close> is text this code writes itself, chunk by chunk;
  \<open>JsonDump\<close> is the combined run info written by \<open>bustools_mash\<close>.
\<close>

datatype event =
    Run "arg list"
  | Ext string "arg list"
  | Write string "string list"
  | JsonDump string "(string \<times> string list) list"

section \<open>Actions: result or error, events, temporary-file counter\<close>

type_synonym 'a outcome = "(error + 'a) \<times> event list \<times> nat"
type_synonym 'a act = "nat \<Rightarrow> 'a outcome"

definition ret :: "'a \<Rightarrow> 'a act" where
  "ret x = (\<lambda>n. (Inr x, [], n))"

definition raise :: "error \<Rightarrow> 'a act" where
  "raise e = (\<lambda>n. (Inl e, [], n))"

definition emit :: "event \<Rightarrow> unit act" where
  "emit ev = (\<lambda>n. (Inr (), [ev], n))"

text \<open>Events emitted before a point stay in the trace whatever happens after it.\<close>

definition pre :: "event list \<Rightarrow> 'a outcome \<Rightarrow> 'a outcome" where
  "pre evs out = (fst out, evs @ fst (snd out), snd (snd out))"

definition bind :: "'a act \<Rightarrow> ('a \<Rightarrow> 'b act) \<Rightarrow> 'b act" where
  "bind m f = (\<lambda>n.
     (case m n of
        (Inl e, evs, n') \<Rightarrow> (Inl e, evs, n')
      | (Inr x, evs, n') \<Rightarrow> pre evs (f x n')))"

definition result :: "'a outcome \<Rightarrow> error + 'a" where
  "result out = fst out"

definition events :: "'a outcome \<Rightarrow> event list" where
  "events out = fst (snd out)"

definition commands :: "'a outcome \<Rightarrow> arg list list" where
  "commands out = concat (map (\<lambda>e. case e of Run c \<Rightarrow> [c] | _ \<Rightarrow> []) (events out))"

text \<open>\<open>d[k]\<close> raises \<open>KeyError\<close> on a missing key; a path is expected where it is used.\<close>

definition getitem :: "pydict \<Rightarrow> string \<Rightarrow> val act" where
  "getitem d k = (case map_of d k of None \<Rightarrow> raise (KeyError k) | Some v \<Rightarrow> ret v)"

definition getpath :: "pydict \<Rightarrow> string \<Rightarrow> string act" where
  "getpath d k =
     (case map_of d k of
        None \<Rightarrow> raise (KeyError k)
      | Some (Path p) \<Rightarrow> ret p
      | Some _ \<Rightarrow> raise TypeError)"

section \<open>The environment of a run\<close>

text \<open>The globals of \<open>config.py\<close> that its setters change.\<close>

record config_state =
  KALLISTO_PATH :: "string option"
  BUSTOOLS_PATH :: "string option"
  DRY :: bool
  VALIDATE :: bool

text \<open>
  What \<open>count.py\<close> takes from outside itself. The strings of \<open>constants.py\<close> are
  looked up by name (\<open>constants env ''BUS_FILENAME''\<close>); the helpers of \<open>utils\<close>,
  \<open>dry\<close>, \<open>stats\<close> and \<open>report\<close> are represented by what they return, their
  calls being \<open>Ext\<close> events; \<open>file_text\<close>, \<open>json_items\<close> and \<open>read_t2g\<close> are the
  contents of the files this code reads; \<open>get_temporary_filename\<close> is indexed by
  the number of temporary names handed out so far. The \<open>validate_files\<close> decorator
  and \<open>logger\<close> leave no trace in the model: an external failure would cut the
  trace short at that point.
\<close>

record env =
  constants :: "string \<Rightarrow> string"
  config :: config_state
  path_exists :: "string \<Rightarrow> bool"
  urlparse_scheme :: "string \<Rightarrow> string"
  whitelist_provided :: "string \<Rightarrow> bool"
  copy_whitelist :: "string \<Rightarrow> string \<Rightarrow> string"
  copy_map :: "string \<Rightarrow> string \<Rightarrow> string"
  stream_file :: "string \<Rightarrow> string \<Rightarrow> string"
  get_temporary_filename :: "nat \<Rightarrow> string \<Rightarrow> string"
  update_filename :: "string \<Rightarrow> string \<Rightarrow> string"
  file_text :: "string \<Rightarrow> string"
  json_items :: "string \<Rightarrow> (string \<times> string) list"
  read_t2g :: "string \<Rightarrow> string \<Rightarrow> string list option"
  stats_save :: "string \<Rightarrow> string"
  render_report :: "arg list \<Rightarrow> pydict"
  dry_stream_batch :: "string \<Rightarrow> string \<Rightarrow> string"
  dry_write_smartseq3_capture :: "string \<Rightarrow> string"

definition get_kallisto_binary_path :: "env \<Rightarrow> string option" where
  "get_kallisto_binary_path env = KALLISTO_PATH (config env)"

definition get_bustools_binary_path :: "env \<Rightarrow> string option" where
  "get_bustools_binary_path env = BUSTOOLS_PATH (config env)"

definition is_dry :: "env \<Rightarrow> bool" where
  "is_dry env = DRY (config env)"

definition opt_arg :: "string option \<Rightarrow> arg" where
  "opt_arg p = (case p of None \<Rightarrow> PyNone | Some s \<Rightarrow> Str s)"

definition run_executable :: "arg list \<Rightarrow> unit act" where
  "run_executable command = emit (Run command)"

text \<open>The truth value of an optional string and of an optional integer.\<close>

definition truthy_str :: "string option \<Rightarrow> bool" where
  "truthy_str p = (case p of None \<Rightarrow> False | Some s \<Rightarrow> s \<noteq> [])"

definition truthy_int :: "int option \<Rightarrow> bool" where
  "truthy_int p = (case p of None \<Rightarrow> False | Some i \<Rightarrow> i \<noteq> 0)"

text \<open>\<open>fastqs\<close> is a list of paths or one batch-file path.\<close>

datatype fastqs = Batch string | Fastqs "string list"

definition is_batch_of :: "fastqs \<Rightarrow> bool" where
  "is_batch_of f = (case f of Batch _ \<Rightarrow> True | Fastqs _ \<Rightarrow> False)"

section \<open>The wrappers of the external subcommands\<close>

definition kallisto_pseudo :: "env \<Rightarrow> string \<Rightarrow> string \<Rightarrow> string \<Rightarrow> int \<Rightarrow> pydict act" where
  "kallisto_pseudo env batch_path index_path out_dir threads =
     bind (run_executable
        ([opt_arg (get_kallisto_binary_path env), Str ''pseudo'']
         @ [Str ''--quant'']
         @ [Str ''-i'', Str index_path]
         @ [Str ''-o'', Str out_dir]
         @ [Str ''-b'', Str batch_path]
         @ [Str ''-t'', Num threads]))
       (\<lambda>_. ret
         [(''mtx'', Path (path_join out_dir (constants env ''ABUNDANCE_FILENAME''))),
          (''ecmap'', Path (path_join out_dir (constants env ''ECMAP_FILENAME''))),
          (''cells'', Path (path_join out_dir (constants env ''CELLS_FILENAME''))),
          (''txnames'', Path (path_join out_dir (constants env ''TXNAMES_FILENAME''))),
          (''info'', Path (path_join out_dir (constants env ''KALLISTO_INFO_FILENAME'')))])"

definition kallisto_bus ::
  "env \<Rightarrow> fastqs \<Rightarrow> string \<Rightarrow> string \<Rightarrow> string \<Rightarrow> int \<Rightarrow> bool \<Rightarrow> bool \<Rightarrow> bool \<Rightarrow> string option
     \<Rightarrow> pydict act" where
  "kallisto_bus env fastqs index_path technology out_dir threads n k paired strand =
     (let results =
            [(''bus'', Path (path_join out_dir (constants env ''BUS_FILENAME''))),
             (''ecmap'', Path (path_join out_dir (constants env ''ECMAP_FILENAME''))),
             (''txnames'', Path (path_join out_dir (constants env ''TXNAMES_FILENAME''))),
             (''info'', Path (path_join out_dir (constants env ''KALLISTO_INFO_FILENAME'')))];
          is_batch = is_batch_of fastqs;
          command =
            [opt_arg (get_kallisto_binary_path env), Str ''bus'']
            @ [Str ''-i'', Str index_path]
            @ [Str ''-o'', Str out_dir]
            @ (if \<not> is_batch then [Str ''-x'', Str technology] else [])
            @ [Str ''-t'', Num threads]
            @ (if n then [Str ''--num''] else [])
            @ (if k then [Str ''--kmer''] else [])
            @ (if paired then [Str ''--paired''] else [])
            @ (if strand = Some ''unstranded'' then [Str ''--unstranded'']
               else if strand = Some ''forward'' then [Str ''--fr-stranded'']
               else if strand = Some ''reverse'' then [Str ''--rf-stranded'']
               else [])
            @ (case fastqs of Batch b \<Rightarrow> [Str ''--batch'', Str b] | Fastqs fs \<Rightarrow> map Str fs);
          results1 =
            (if paired
             then dict_set ''flens'' (Path (path_join out_dir (constants env ''FLENS_FILENAME''))) results
             else results)
      in bind (run_executable command)
           (\<lambda>_. ret
             (if upper technology \<in> {''BULK'', ''SMARTSEQ3''}
              then dict_set ''saved_index''
                     (Path (path_join out_dir (constants env ''SAVED_INDEX_FILENAME''))) results1
              else results1)))"

definition kallisto_quant_tcc ::
  "env \<Rightarrow> string \<Rightarrow> string \<Rightarrow> string \<Rightarrow> string \<Rightarrow> string \<Rightarrow> string option \<Rightarrow> int option
     \<Rightarrow> int option \<Rightarrow> int \<Rightarrow> pydict act" where
  "kallisto_quant_tcc env mtx_path saved_index_path ecmap_path t2g_path out_dir flens_path l s threads =
     bind (run_executable
        ([opt_arg (get_kallisto_binary_path env), Str ''quant-tcc'']
         @ [Str ''-o'', Str out_dir]
         @ [Str ''-i'', Str saved_index_path]
         @ [Str ''-e'', Str ecmap_path]
         @ [Str ''-g'', Str t2g_path]
         @ [Str ''-t'', Num threads]
         @ (if truthy_str flens_path then [Str ''-f'', opt_arg flens_path] else [])
         @ (if truthy_int l then [Str ''-l'', Num (the l)] else [])
         @ (if truthy_int s then [Str ''-s'', Num (the s)] else [])
         @ [Str mtx_path]))
       (\<lambda>_. ret
         [(''genes'', Path (path_join out_dir (constants env ''GENES_FILENAME''))),
          (''gene_mtx'', Path (path_join out_dir (constants env ''ABUNDANCE_GENE_FILENAME''))),
          (''gene_tpm_mtx'', Path (path_join out_dir (constants env ''ABUNDANCE_GENE_TPM_FILENAME''))),
          (''mtx'', Path (path_join out_dir (constants env ''ABUNDANCE_FILENAME''))),
          (''tpm_mtx'', Path (path_join out_dir (constants env ''ABUNDANCE_TPM_FILENAME''))),
          (''fld'', Path (path_join out_dir (constants env ''FLD_FILENAME''))),
          (''txnames'', Path (path_join out_dir (constants env ''TXNAMES_FILENAME'')))])"

text \<open>
  \<open>bustools_mash\<close> also combines the \<open>run_info.json\<close> of the input directories,
  unless the run is dry: \<open>run_info.setdefault(key, []).append(value)\<close> for every item
  of every file, in order.
\<close>

primrec append_at :: "string \<Rightarrow> string \<Rightarrow> (string \<times> string list) list \<Rightarrow> (string \<times> string list) list" where
  "append_at k v [] = [(k, [v])]"
| "append_at k v (p # ps) = (if fst p = k then (k, snd p @ [v]) # ps else p # append_at k v ps)"

definition combine_run_info ::
  "env \<Rightarrow> string list \<Rightarrow> (string \<times> string list) list" where
  "combine_run_info env out_dirs =
     fold (\<lambda>o_dir run_info.
             fold (\<lambda>kv acc. append_at (fst kv) (snd kv) acc)
               (json_items env (path_join o_dir (constants env ''KALLISTO_INFO_FILENAME''))) run_info)
       out_dirs []"

fun emit_all :: "event list \<Rightarrow> unit act" where
  "emit_all [] = ret ()"
| "emit_all (e # es) = bind (emit e) (\<lambda>_. emit_all es)"

definition bustools_mash :: "env \<Rightarrow> string list \<Rightarrow> string \<Rightarrow> pydict act" where
  "bustools_mash env out_dirs out_dir =
     bind (run_executable
        ([opt_arg (get_bustools_binary_path env), Str ''mash'']
         @ [Str ''-o'', Str out_dir]
         @ map Str out_dirs))
       (\<lambda>_. bind
          (if \<not> is_dry env
           then bind (emit_all
                  (map (\<lambda>o_dir. Ext ''json.load''
                          [Str (path_join o_dir (constants env ''KALLISTO_INFO_FILENAME''))]) out_dirs))
                  (\<lambda>_. bind (emit (JsonDump (path_join out_dir (constants env ''KALLISTO_INFO_FILENAME''))
                                      (combine_run_info env out_dirs)))
                  (\<lambda>_. ret (Path (path_join out_dir (constants env ''KALLISTO_INFO_FILENAME'')))))
           else ret NoneV)
          (\<lambda>info_path. ret
            [(''bus'', Path (path_join out_dir (constants env ''BUS_MASHED_FILENAME''))),
             (''ecmap'', Path (path_join out_dir (constants env ''ECMAP_FILENAME''))),
             (''txnames'', Path (path_join out_dir (constants env ''TXNAMES_FILENAME''))),
             (''info'', info_path)]))"

definition bustools_merge :: "env \<Rightarrow> string \<Rightarrow> string \<Rightarrow> string \<Rightarrow> string \<Rightarrow> pydict act" where
  "bustools_merge env bus_path out_dir ecmap_path txnames_path =
     bind (run_executable
        ([opt_arg (get_bustools_binary_path env), Str ''merge'']
         @ [Str ''-o'', Str out_dir]
         @ [Str ''-e'', Str ecmap_path]
         @ [Str ''-t'', Str txnames_path]
         @ [Str bus_path]))
       (\<lambda>_. ret
         [(''bus'', Path (path_join out_dir (constants env ''BUS_MERGED_FILENAME''))),
          (''ecmap'', Path (path_join out_dir (constants env ''ECMAP_MERGED_FILENAME'')))])"

definition bustools_project ::
  "env \<Rightarrow> string \<Rightarrow> string \<Rightarrow> string \<Rightarrow> string \<Rightarrow> string \<Rightarrow> pydict act" where
  "bustools_project env bus_path out_path map_path ecmap_path txnames_path =
     bind (run_executable
        ([opt_arg (get_bustools_binary_path env), Str ''project'']
         @ [Str ''-o'', Str out_path]
         @ [Str ''-m'', Str map_path]
         @ [Str ''-e'', Str ecmap_path]
         @ [Str ''-t'', Str txnames_path]
         @ [Str ''--barcode'']
         @ [Str bus_path]))
       (\<lambda>_. ret [(''bus'', Path out_path)])"

definition bustools_sort ::
  "env \<Rightarrow> string \<Rightarrow> string \<Rightarrow> string \<Rightarrow> int \<Rightarrow> string \<Rightarrow> bool \<Rightarrow> pydict act" where
  "bustools_sort env bus_path out_path temp_dir threads memory flags =
     bind (run_executable
        ([opt_arg (get_bustools_binary_path env), Str ''sort'']
         @ [Str ''-o'', Str out_path]
         @ [Str ''-T'', Str temp_dir]
         @ [Str ''-t'', Num threads]
         @ [Str ''-m'', Str memory]
         @ (if flags then [Str ''--flags''] else [])
         @ [Str bus_path]))
       (\<lambda>_. ret [(''bus'', Path out_path)])"

definition bustools_inspect ::
  "env \<Rightarrow> string \<Rightarrow> string \<Rightarrow> string option \<Rightarrow> string option \<Rightarrow> pydict act" where
  "bustools_inspect env bus_path out_path whitelist_path ecmap_path =
     bind (run_executable
        ([opt_arg (get_bustools_binary_path env), Str ''inspect'']
         @ [Str ''-o'', Str out_path]
         @ (if truthy_str whitelist_path then [Str ''-w'', opt_arg whitelist_path] else [])
         @ (if truthy_str ecmap_path then [Str ''-e'', opt_arg ecmap_path] else [])
         @ [Str bus_path]))
       (\<lambda>_. ret [(''inspect'', Path out_path)])"

text \<open>\<open>whitelist_path\<close> is \<open>None\<close> when \<open>count\<close> never set it.\<close>

definition bustools_correct :: "env \<Rightarrow> string \<Rightarrow> string \<Rightarrow> string option \<Rightarrow> pydict act" where
  "bustools_correct env bus_path out_path whitelist_path =
     bind (run_executable
        ([opt_arg (get_bustools_binary_path env), Str ''correct'']
         @ [Str ''-o'', Str out_path]
         @ [Str ''-w'', opt_arg whitelist_path]
         @ [Str bus_path]))
       (\<lambda>_. ret [(''bus'', Path out_path)])"

definition bustools_count ::
  "env \<Rightarrow> string \<Rightarrow> string \<Rightarrow> string \<Rightarrow> string \<Rightarrow> string \<Rightarrow> bool \<Rightarrow> bool \<Rightarrow> bool \<Rightarrow> bool \<Rightarrow> bool
     \<Rightarrow> pydict act" where
  "bustools_count env bus_path out_prefix t2g_path ecmap_path txnames_path tcc mm cm umi_gene em =
     bind (run_executable
        ([opt_arg (get_bustools_binary_path env), Str ''count'']
         @ [Str ''-o'', Str out_prefix]
         @ [Str ''-g'', Str t2g_path]
         @ [Str ''-e'', Str ecmap_path]
         @ [Str ''-t'', Str txnames_path]
         @ (if \<not> tcc then [Str ''--genecounts''] else [])
         @ (if mm then [Str ''--multimapping''] else [])
         @ (if cm then [Str ''--cm''] else [])
         @ (if umi_gene then [Str ''--umi-gene''] else [])
         @ (if em then [Str ''--em''] else [])
         @ [Str bus_path]))
       (\<lambda>_. ret (dict_literal
         [(''mtx'', Path (out_prefix @ ''.mtx'')),
          (if tcc then ''ec'' else ''genes'',
           Path (if tcc then out_prefix @ ''.ec.txt'' else out_prefix @ ''.genes.txt'')),
          (''barcodes'', Path (out_prefix @ ''.barcodes.txt''))]))"

definition bustools_capture ::
  "env \<Rightarrow> string \<Rightarrow> string \<Rightarrow> string \<Rightarrow> string option \<Rightarrow> string option \<Rightarrow> string \<Rightarrow> bool
     \<Rightarrow> pydict act" where
  "bustools_capture env bus_path out_path capture_path ecmap_path txnames_path capture_type complement =
     bind (run_executable
        ([opt_arg (get_bustools_binary_path env), Str ''capture'']
         @ [Str ''-o'', Str out_path]
         @ [Str ''-c'', Str capture_path]
         @ (if truthy_str ecmap_path then [Str ''-e'', opt_arg ecmap_path] else [])
         @ (if truthy_str txnames_path then [Str ''-t'', opt_arg txnames_path] else [])
         @ (if complement then [Str ''--complement''] else [])
         @ [Str (''--'' @ capture_type)]
         @ [Str bus_path]))
       (\<lambda>_. ret [(''bus'', Path out_path)])"

definition bustools_whitelist :: "env \<Rightarrow> string \<Rightarrow> string \<Rightarrow> int option \<Rightarrow> pydict act" where
  "bustools_whitelist env bus_path out_path threshold =
     bind (run_executable
        ([opt_arg (get_bustools_binary_path env), Str ''whitelist'']
         @ [Str ''-o'', Str out_path]
         @ (if truthy_int threshold then [Str ''--threshold'', Num (the threshold)] else [])
         @ [Str bus_path]))
       (\<lambda>_. ret [(''whitelist'', Path out_path)])"

section \<open>Files written and converted by \<open>count.py\<close> itself\<close>

definition val_arg :: "val \<Rightarrow> arg" where
  "val_arg v = (case v of Path p \<Rightarrow> Str p | NoneV \<Rightarrow> PyNone | Dict _ \<Rightarrow> PyDict)"

definition str_of_arg :: "arg \<Rightarrow> string" where
  "str_of_arg a =
     (case a of Str s \<Rightarrow> s | Num i \<Rightarrow> str_of_int i | PyNone \<Rightarrow> ''None'' | PyDict \<Rightarrow> ''{}'')"

text \<open>
  \<open>write_smartseq_batch\<close>: one line per cell until \<open>zip\<close> runs out; unpacking a
  pair that does not have two elements raises \<open>ValueError\<close> after the lines before
  it were written.
\<close>

fun batch_chunks :: "arg list \<Rightarrow> string list list \<Rightarrow> string list \<times> bool" where
  "batch_chunks (cell_id # cell_ids) ([fastq_1, fastq_2] # pairs) =
     (let r = batch_chunks cell_ids pairs in
      ((str_of_arg cell_id @ [CHR 0x09] @ fastq_1 @ [CHR 0x09] @ fastq_2 @ [CHR 0x0A]) # fst r, snd r))"
| "batch_chunks (cell_id # cell_ids) (pair # pairs) = ([], False)"
| "batch_chunks cell_ids pairs = ([], True)"

definition write_smartseq_batch :: "string list list \<Rightarrow> arg list \<Rightarrow> string \<Rightarrow> pydict act" where
  "write_smartseq_batch fastq_pairs cell_ids out_path =
     (let r = batch_chunks cell_ids fastq_pairs in
      bind (emit (Write out_path (fst r)))
        (\<lambda>_. if snd r then ret [(''batch'', Path out_path)] else raise ValueError))"

definition make_directory :: "string \<Rightarrow> unit act" where
  "make_directory path = emit (Ext ''make_directory'' [Str path])"

definition move_file :: "string \<Rightarrow> string \<Rightarrow> unit act" where
  "move_file source destination = emit (Ext ''move_file'' [Str source, Str destination])"

definition nonblank_lines :: "env \<Rightarrow> string \<Rightarrow> string list" where
  "nonblank_lines env path = filter (\<lambda>line. \<not> isspace line) (file_lines (file_text env path))"

definition gene_to_name_of :: "string list \<Rightarrow> string \<Rightarrow> string option" where
  "gene_to_name_of t2g_lines =
     fold (\<lambda>line m. let sp = split (CHR 0x09) (strip line) in
                      if length sp > 2 then m(sp ! 1 \<mapsto> sp ! 2) else m)
       t2g_lines Map.empty"

definition matrix_to_cellranger ::
  "env \<Rightarrow> string \<Rightarrow> string \<Rightarrow> string \<Rightarrow> string \<Rightarrow> string \<Rightarrow> pydict act" where
  "matrix_to_cellranger env matrix_path barcodes_path genes_path t2g_path out_dir =
     (let cr_matrix_path = path_join out_dir (constants env ''CELLRANGER_MATRIX'');
          cr_barcodes_path = path_join out_dir (constants env ''CELLRANGER_BARCODES'');
          cr_genes_path = path_join out_dir (constants env ''CELLRANGER_GENES'');
          gene_to_name = gene_to_name_of (nonblank_lines env t2g_path)
      in
      bind (make_directory out_dir)
      (\<lambda>_. bind (emit (Ext ''scipy.io.mmread'' [Str matrix_path]))
      (\<lambda>_. bind (emit (Ext ''scipy.io.mmwrite'' [Str cr_matrix_path, Str ''mtx.T'']))
      (\<lambda>_. bind (emit (Ext ''open'' [Str barcodes_path, Str ''r'']))
      (\<lambda>_. bind (emit (Write cr_barcodes_path
                    (map (\<lambda>line. strip line @ ''-1'' @ [CHR 0x0A]) (nonblank_lines env barcodes_path))))
      (\<lambda>_. bind (emit (Ext ''open'' [Str t2g_path, Str ''r'']))
      (\<lambda>_. bind (emit (Ext ''open'' [Str genes_path, Str ''r'']))
      (\<lambda>_. bind (emit (Write cr_genes_path
                    (map (\<lambda>line. let gene = strip line;
                                     gene_name = (case gene_to_name gene of None \<Rightarrow> gene | Some g \<Rightarrow> g)
                                 in gene @ [CHR 0x09] @ gene_name @ [CHR 0x0A])
                       (nonblank_lines env genes_path))))
      (\<lambda>_. ret
         [(''mtx'', Path cr_matrix_path),
          (''barcodes'', Path cr_barcodes_path),
          (''genes'', Path cr_genes_path)])))))))))"

text \<open>The conversions to loom and h5ad are done by anndata: calls with their paths.\<close>

definition write_adata :: "env \<Rightarrow> string \<Rightarrow> bool \<Rightarrow> bool \<Rightarrow> pydict act" where
  "write_adata env counts_dir loom h5ad =
     (let loom_path = path_join counts_dir (constants env ''ADATA_PREFIX'' @ ''.loom'');
          h5ad_path = path_join counts_dir (constants env ''ADATA_PREFIX'' @ ''.h5ad'')
      in
      bind (if loom
            then bind (emit (Ext ''adata.write_loom'' [Str loom_path]))
                   (\<lambda>_. ret (dict_update [] [(''loom'', Path loom_path)]))
            else ret [])
      (\<lambda>results. if h5ad
            then bind (emit (Ext ''adata.write'' [Str h5ad_path]))
                   (\<lambda>_. ret (dict_update results [(''h5ad'', Path h5ad_path)]))
            else ret results))"

definition import_adata ::
  "arg \<Rightarrow> arg \<Rightarrow> arg \<Rightarrow> arg \<Rightarrow> arg \<Rightarrow> string \<Rightarrow> bool \<Rightarrow> int \<Rightarrow> event" where
  "import_adata matrix_path barcodes_path genes_path ec_path t2g_path_txnames name tcc threads =
     (if tcc
      then Ext ''import_tcc_matrix_as_anndata''
             [matrix_path, barcodes_path, ec_path, t2g_path_txnames, Num threads]
      else Ext ''import_matrix_as_anndata''
             [matrix_path, barcodes_path, genes_path, t2g_path_txnames, Str name])"

definition convert_matrix ::
  "env \<Rightarrow> string \<Rightarrow> string \<Rightarrow> string \<Rightarrow> arg \<Rightarrow> arg \<Rightarrow> arg \<Rightarrow> arg \<Rightarrow> string \<Rightarrow> bool \<Rightarrow> bool
     \<Rightarrow> bool \<Rightarrow> int \<Rightarrow> pydict act" where
  "convert_matrix env counts_dir matrix_path barcodes_path genes_path ec_path t2g_path txnames_path
       name loom h5ad tcc threads =
     bind (emit (import_adata (Str matrix_path) (Str barcodes_path) genes_path ec_path
                   (if tcc then txnames_path else t2g_path) name tcc threads))
       (\<lambda>_. write_adata env counts_dir loom h5ad)"

definition convert_matrices ::
  "env \<Rightarrow> string \<Rightarrow> arg list \<Rightarrow> arg list \<Rightarrow> arg list \<Rightarrow> arg list \<Rightarrow> arg \<Rightarrow> arg \<Rightarrow> string
     \<Rightarrow> bool \<Rightarrow> bool \<Rightarrow> bool \<Rightarrow> bool \<Rightarrow> int \<Rightarrow> pydict act" where
  "convert_matrices env counts_dir matrix_paths barcodes_paths genes_paths ec_paths t2g_path
       txnames_path name loom h5ad nucleus tcc threads =
     (let genes_ec_paths = (if genes_paths = [] \<or> PyNone \<in> set genes_paths then ec_paths else genes_paths)
      in
      bind (emit_all
        (map (\<lambda>(matrix_path, barcodes_path, genes_ec_path).
                import_adata matrix_path barcodes_path genes_ec_path genes_ec_path
                  (if tcc then txnames_path else t2g_path) name tcc threads)
           (zip matrix_paths (zip barcodes_paths genes_ec_paths))))
      (\<lambda>_. bind (emit (Ext (if nucleus then ''sum_anndatas'' else ''overlay_anndatas'') []))
      (\<lambda>_. write_adata env counts_dir loom h5ad)))"

section \<open>Filtering, streaming, whitelists\<close>

definition filter_with_bustools ::
  "env \<Rightarrow> string \<Rightarrow> string \<Rightarrow> string \<Rightarrow> string \<Rightarrow> string \<Rightarrow> string \<Rightarrow> int option \<Rightarrow> string option
     \<Rightarrow> bool \<Rightarrow> bool \<Rightarrow> bool \<Rightarrow> string \<Rightarrow> int \<Rightarrow> string \<Rightarrow> bool \<Rightarrow> bool \<Rightarrow> bool \<Rightarrow> bool \<Rightarrow> bool
     \<Rightarrow> bool \<Rightarrow> pydict act" where
  "filter_with_bustools env bus_path ecmap_path txnames_path t2g_path whitelist_path filtered_bus_path
       filter_threshold counts_prefix tcc mm kite temp_dir threads memory count loom h5ad cellranger
       umi_gene em =
     bind (bustools_whitelist env bus_path whitelist_path filter_threshold)
     (\<lambda>whitelist_result. let results = dict_update [] whitelist_result in
     bind (getpath whitelist_result ''whitelist'')
     (\<lambda>wl. bind (bustools_correct env bus_path
                  (path_join temp_dir
                     (update_filename env (basename bus_path) (constants env ''CORRECT_CODE'')))
                  (Some wl))
     (\<lambda>correct_result. bind (getpath correct_result ''bus'')
     (\<lambda>correct_bus. bind (bustools_sort env correct_bus filtered_bus_path temp_dir threads memory False)
     (\<lambda>sort_result. bind (getitem sort_result ''bus'')
     (\<lambda>sort_bus_val. let results = dict_update results [(''bus_scs'', sort_bus_val)] in
     if count then
       (case counts_prefix of
          None \<Rightarrow> raise TypeError
        | Some prefix \<Rightarrow>
            let counts_dir = dirname prefix in
            bind (make_directory counts_dir)
            (\<lambda>_. bind (getpath sort_result ''bus'')
            (\<lambda>sort_bus. bind (bustools_count env sort_bus prefix t2g_path ecmap_path txnames_path
                               tcc mm False umi_gene em)
            (\<lambda>count_result. let results = dict_update results count_result in
            bind (if loom \<or> h5ad
                  then bind (getpath count_result ''mtx'')
                       (\<lambda>mtx. bind (getpath count_result ''barcodes'')
                       (\<lambda>barcodes. bind (convert_matrix env counts_dir mtx barcodes
                                           (val_arg (dict_get count_result ''genes''))
                                           (val_arg (dict_get count_result ''ec''))
                                           (Str t2g_path) (Str txnames_path)
                                           (if kite then constants env ''FEATURE_NAME''
                                            else constants env ''GENE_NAME'')
                                           loom h5ad tcc threads)
                       (\<lambda>converted. ret (dict_update results converted))))
                  else ret results)
            (\<lambda>results.
              if cellranger \<and> \<not> tcc
              then bind (getpath count_result ''mtx'')
                   (\<lambda>mtx. bind (getpath count_result ''barcodes'')
                   (\<lambda>barcodes. bind (getpath count_result ''genes'')
                   (\<lambda>genes. bind (matrix_to_cellranger env mtx barcodes genes t2g_path
                                    (path_join counts_dir (constants env ''CELLRANGER_DIR'')))
                   (\<lambda>cr_result. ret (dict_update results [(''cellranger'', Dict cr_result)])))))
              else ret results)))))
     else ret results))))))"

definition is_remote :: "env \<Rightarrow> string \<Rightarrow> bool" where
  "is_remote env fastq = (urlparse_scheme env fastq \<in> {''http'', ''https'', ''ftp'', ''ftps''})"

fun stream_fastqs :: "env \<Rightarrow> string list \<Rightarrow> string \<Rightarrow> string list act" where
  "stream_fastqs env [] temp_dir = ret []"
| "stream_fastqs env (fastq # fastqs) temp_dir =
     bind (if is_remote env fastq
           then bind (emit (Ext ''stream_file'' [Str fastq, Str (path_join temp_dir (basename fastq))]))
                  (\<lambda>_. ret (stream_file env fastq (path_join temp_dir (basename fastq))))
           else ret fastq)
       (\<lambda>x. bind (stream_fastqs env fastqs temp_dir) (\<lambda>xs. ret (x # xs)))"

text \<open>
  \<open>stream_batch\<close> rewrites the batch file line by line; \<open>stream_fastqs\<close> is called
  there without \<open>temp_dir\<close>, so with its default \<open>'tmp'\<close>. Under a dry run the
  \<open>dryable\<close> decorator calls the function of \<open>dry.count\<close> instead.
\<close>

fun stream_batch_lines :: "env \<Rightarrow> string list \<Rightarrow> string list act" where
  "stream_batch_lines env [] = ret []"
| "stream_batch_lines env (line # rest) =
     (if isspace line \<or> (line \<noteq> [] \<and> hd line = CHR ''#'') then stream_batch_lines env rest
      else
        let sep = (if CHR 0x09 \<in> set line then CHR 0x09 else CHR '' '');
            sp = split sep (strip line);
            name = hd sp
        in bind (stream_fastqs env (tl sp) ''tmp'')
           (\<lambda>fastqs. bind (stream_batch_lines env rest)
           (\<lambda>chunks. ret ((name @ [CHR 0x09] @ concat (map (\<lambda>f. f @ [CHR 0x09]) (butlast fastqs))
                               @ (if fastqs = [] then [] else last fastqs) @ [CHR 0x0A]) # chunks))))"

definition fresh_temporary_filename :: "env \<Rightarrow> string \<Rightarrow> string act" where
  "fresh_temporary_filename env temp_dir =
     (\<lambda>n. (Inr (get_temporary_filename env n temp_dir),
            [Ext ''get_temporary_filename'' [Str temp_dir]], Suc n))"

definition stream_batch :: "env \<Rightarrow> string \<Rightarrow> string \<Rightarrow> string act" where
  "stream_batch env batch_path temp_dir =
     (if is_dry env
      then bind (emit (Ext ''dry.count.stream_batch'' [Str batch_path, Str temp_dir]))
             (\<lambda>_. ret (dry_stream_batch env batch_path temp_dir))
      else bind (fresh_temporary_filename env temp_dir)
           (\<lambda>new_batch_path. bind (emit (Ext ''open'' [Str batch_path, Str ''r'']))
           (\<lambda>_. bind (stream_batch_lines env (file_lines (file_text env batch_path)))
           (\<lambda>chunks. bind (emit (Write new_batch_path chunks))
           (\<lambda>_. ret new_batch_path)))))"

definition copy_or_create_whitelist :: "env \<Rightarrow> string \<Rightarrow> string \<Rightarrow> string \<Rightarrow> string act" where
  "copy_or_create_whitelist env technology bus_path out_dir =
     (if whitelist_provided env technology
      then bind (emit (Ext ''copy_whitelist'' [Str technology, Str out_dir]))
             (\<lambda>_. ret (copy_whitelist env technology out_dir))
      else bind (bustools_whitelist env bus_path
                   (path_join out_dir (constants env ''WHITELIST_FILENAME'')) None)
             (\<lambda>r. getpath r ''whitelist''))"

text \<open>
  \<open>convert_transcripts_to_genes\<close>: the lines are those read from the transcripts
  file when it is opened, before the output file is written.
\<close>

definition gene_line :: "(string \<Rightarrow> string list option) \<Rightarrow> string \<Rightarrow> string" where
  "gene_line t2g line =
     (let transcript = strip line in
      case t2g transcript of
        Some (a # attributes) \<Rightarrow> a @ [CHR 0x0A]
      | _ \<Rightarrow> transcript @ [CHR 0x0A])"

definition convert_transcripts_to_genes :: "env \<Rightarrow> string \<Rightarrow> string \<Rightarrow> string \<Rightarrow> string act" where
  "convert_transcripts_to_genes env txnames_path t2g_path genes_path =
     (let t2g = read_t2g env t2g_path in
      bind (emit (Ext ''read_t2g'' [Str t2g_path]))
      (\<lambda>_. bind (emit (Ext ''open_as_text'' [Str txnames_path, Str ''r'']))
      (\<lambda>_. bind (emit (Write genes_path (map (gene_line t2g) (nonblank_lines env txnames_path))))
      (\<lambda>_. ret genes_path))))"

definition write_smartseq3_capture :: "env \<Rightarrow> string \<Rightarrow> string act" where
  "write_smartseq3_capture env capture_path =
     (if is_dry env
      then bind (emit (Ext ''dry.count.write_smartseq3_capture'' [Str capture_path]))
             (\<lambda>_. ret (dry_write_smartseq3_capture env capture_path))
      else bind (emit (Write capture_path [replicate 32 (CHR ''T'') @ [CHR 0x0A]]))
             (\<lambda>_. ret capture_path))"

section \<open>The orchestration functions\<close>

text \<open>\<open>index_paths\<close> is a list, or one path that is wrapped into a list.\<close>

datatype index_arg = Single string | Multi "string list"

definition index_list :: "index_arg \<Rightarrow> string list" where
  "index_list ia = (case ia of Single p \<Rightarrow> [p] | Multi ps \<Rightarrow> ps)"

text \<open>
  \<open>any(not os.path.exists(path) for name, path in d.items())\<close>, for the dictionary of
  expected output paths.
\<close>

definition any_missing :: "env \<Rightarrow> pydict \<Rightarrow> bool" where
  "any_missing env d =
     list_ex (\<lambda>kv. case snd kv of Path p \<Rightarrow> \<not> path_exists env p | _ \<Rightarrow> True) d"

definition count_smartseq ::
  "env \<Rightarrow> index_arg \<Rightarrow> string \<Rightarrow> string \<Rightarrow> string \<Rightarrow> string list list \<Rightarrow> arg list option \<Rightarrow> string
     \<Rightarrow> int \<Rightarrow> string \<Rightarrow> bool \<Rightarrow> bool \<Rightarrow> bool \<Rightarrow> pydict act" where
  "count_smartseq env index_paths0 t2g_path technology out_dir fastq_pairs cell_ids temp_dir threads
       memory overwrite loom h5ad =
     bind (emit (Ext ''STATS.start'' []))
     (\<lambda>_. let index_paths = index_list index_paths0 in
     if length index_paths > 1
     then raise (Exception (''Technology '' @ technology @ '' does not support multiple indices.''))
     else if list_ex (\<lambda>pair. list_ex (\<lambda>fastq. is_remote env fastq) pair) fastq_pairs
     then raise (Exception (''Technology '' @ technology @ '' does not support FASTQ streaming.''))
     else
       bind (make_directory out_dir)
       (\<lambda>_. let pseudo_result0 =
                  [(''mtx'', Path (path_join out_dir (constants env ''ABUNDANCE_FILENAME''))),
                   (''ecmap'', Path (path_join out_dir (constants env ''ECMAP_FILENAME''))),
                   (''cells'', Path (path_join out_dir (constants env ''CELLS_FILENAME''))),
                   (''txnames'', Path (path_join out_dir (constants env ''TXNAMES_FILENAME''))),
                   (''info'', Path (path_join out_dir (constants env ''KALLISTO_INFO_FILENAME'')))]
       in
       bind (if any_missing env pseudo_result0 \<or> overwrite
             then bind (write_smartseq_batch fastq_pairs
                          (case cell_ids of
                             Some (c # cs) \<Rightarrow> c # cs
                           | _ \<Rightarrow> map (\<lambda>i. Num (int i)) [0..<length fastq_pairs])
                          (path_join out_dir (constants env ''BATCH_FILENAME'')))
                  (\<lambda>batch_result. bind (getpath batch_result ''batch'')
                  (\<lambda>batch. case index_paths of
                       [] \<Rightarrow> raise IndexError
                     | index_path # _ \<Rightarrow>
                         bind (kallisto_pseudo env batch index_path out_dir threads)
                         (\<lambda>pseudo_result. ret (dict_update [] batch_result, pseudo_result))))
             else ret ([], pseudo_result0))
       (\<lambda>rp. let pseudo_result = snd rp; results = dict_update (fst rp) pseudo_result;
                 genes_path = path_join out_dir (constants env ''GENES_FILENAME'')
       in
       bind (getpath pseudo_result ''txnames'')
       (\<lambda>txnames. bind (convert_transcripts_to_genes env txnames t2g_path genes_path)
       (\<lambda>genes. let results = dict_set ''genes'' (Path genes) results in
       bind (if loom \<or> h5ad
             then bind (getpath pseudo_result ''mtx'')
                  (\<lambda>mtx. bind (getpath pseudo_result ''cells'')
                  (\<lambda>cells. bind (getitem results ''genes'')
                  (\<lambda>genes_val. bind (convert_matrix env out_dir mtx cells (val_arg genes_val) PyNone
                                       (Str t2g_path) PyNone ''gene'' loom h5ad False threads)
                  (\<lambda>converted. ret (dict_update results converted)))))
             else ret results)
       (\<lambda>results. bind (emit (Ext ''STATS.end'' []))
       (\<lambda>_. bind (emit (Ext ''STATS.save'' [Str (path_join out_dir (constants env ''KB_INFO_FILENAME''))]))
       (\<lambda>_. ret (dict_update results
                   [(''stats'',
                     Path (stats_save env (path_join out_dir (constants env ''KB_INFO_FILENAME''))))])))))))))"

text \<open>
  \<open>kallisto_bus_split\<close>: one \<open>kallisto bus\<close> per index into its own part directory,
  each part sorted by flag and moved back over the part's BUS file; then mash, sort,
  merge and two moves. \<open>fastqs\<close> is rebound to the streamed list in every round; a
  batch-file string would be iterated character by character.
\<close>

definition fastq_items :: "fastqs \<Rightarrow> string list" where
  "fastq_items f = (case f of Fastqs fs \<Rightarrow> fs | Batch b \<Rightarrow> map (\<lambda>c. [c]) b)"

fun bus_split_parts ::
  "env \<Rightarrow> nat \<Rightarrow> string list \<Rightarrow> string list \<Rightarrow> string \<Rightarrow> string \<Rightarrow> int \<Rightarrow> string \<Rightarrow> bool
     \<Rightarrow> string option \<Rightarrow> string list act" where
  "bus_split_parts env i [] fastqs technology temp_dir threads memory paired strand = ret []"
| "bus_split_parts env i (index_path # rest) fastqs technology temp_dir threads memory paired strand =
     (let bus_part_dir = path_join temp_dir (''bus_part'' @ str_of_nat i);
          bus_part = path_join bus_part_dir (constants env ''BUS_FILENAME'')
      in
      bind (stream_fastqs env fastqs temp_dir)
      (\<lambda>fastqs. bind (kallisto_bus env (Fastqs fastqs) index_path technology bus_part_dir threads
                        True True paired strand)
      (\<lambda>_. bind (fresh_temporary_filename env temp_dir)
      (\<lambda>tmp. bind (bustools_sort env bus_part tmp temp_dir threads memory True)
      (\<lambda>sort_part. bind (getpath sort_part ''bus'')
      (\<lambda>sorted. bind (move_file sorted bus_part)
      (\<lambda>_. bind (bus_split_parts env (Suc i) rest fastqs technology temp_dir threads memory
                    paired strand)
      (\<lambda>part_dirs. ret (bus_part_dir # part_dirs)))))))))"

definition kallisto_bus_split ::
  "env \<Rightarrow> fastqs \<Rightarrow> string list \<Rightarrow> string \<Rightarrow> string \<Rightarrow> string \<Rightarrow> int \<Rightarrow> string \<Rightarrow> bool
     \<Rightarrow> string option \<Rightarrow> pydict act" where
  "kallisto_bus_split env fastqs index_paths technology out_dir temp_dir threads memory paired strand =
     bind (bus_split_parts env 0 index_paths (fastq_items fastqs) technology temp_dir threads memory
             paired strand)
     (\<lambda>part_dirs. bind (bustools_mash env part_dirs out_dir)
     (\<lambda>mash_result. bind (getpath mash_result ''bus'')
     (\<lambda>mash_bus. bind (fresh_temporary_filename env temp_dir)
     (\<lambda>tmp. bind (bustools_sort env mash_bus tmp temp_dir threads memory True)
     (\<lambda>sort_result. bind (getpath sort_result ''bus'')
     (\<lambda>sorted. bind (move_file sorted mash_bus)
     (\<lambda>_. bind (getpath mash_result ''ecmap'')
     (\<lambda>mash_ecmap. bind (getpath mash_result ''txnames'')
     (\<lambda>mash_txnames. bind (bustools_merge env mash_bus out_dir mash_ecmap mash_txnames)
     (\<lambda>merge_result.
        let bus_path = path_join out_dir (constants env ''BUS_FILENAME'');
            ecmap_path = path_join out_dir (constants env ''ECMAP_FILENAME'')
        in
        bind (getpath merge_result ''bus'')
        (\<lambda>merged_bus. bind (move_file merged_bus bus_path)
        (\<lambda>_. bind (getpath merge_result ''ecmap'')
        (\<lambda>merged_ecmap. bind (move_file merged_ecmap ecmap_path)
        (\<lambda>_. ret
           [(''bus'', Path bus_path),
            (''ecmap'', Path ecmap_path),
            (''txnames'', Path (path_join out_dir (constants env ''TXNAMES_FILENAME''))),
            (''info'', Path (path_join out_dir (constants env ''KALLISTO_INFO_FILENAME'')))]))))))))))))))"

text \<open>
  The three pipelines start alike (lines 1334-1369 of \<open>count\<close>, 1604-1637 of
  \<open>count_smartseq3\<close>, 2047-2074 of \<open>count_velocity\<close>): unless every expected output
  exists and \<open>overwrite\<close> is off, run \<open>kallisto bus\<close>, split over the indices when
  there are several. They differ in the technology passed, in \<open>paired\<close> and in
  whether a batch file is recognised (\<open>count_velocity\<close> streams \<open>fastqs\<close> as a list
  whatever it is).
\<close>

definition bus_stage ::
  "env \<Rightarrow> pydict \<Rightarrow> bool \<Rightarrow> fastqs \<Rightarrow> string list \<Rightarrow> string \<Rightarrow> string \<Rightarrow> string \<Rightarrow> int \<Rightarrow> string
     \<Rightarrow> bool \<Rightarrow> bool \<Rightarrow> string option \<Rightarrow> pydict act" where
  "bus_stage env bus_result batch_aware fastqs index_paths technology out_dir temp_dir threads memory
       overwrite paired strand =
     (if any_missing env bus_result \<or> overwrite
      then (if length index_paths > 1
            then kallisto_bus_split env fastqs index_paths technology out_dir temp_dir threads memory
                   paired strand
            else bind (case fastqs of
                         Batch b \<Rightarrow>
                           if batch_aware
                           then bind (stream_batch env b temp_dir) (\<lambda>new_batch. ret (Batch new_batch))
                           else bind (stream_fastqs env (fastq_items fastqs) temp_dir)
                                  (\<lambda>streamed. ret (Fastqs streamed))
                       | Fastqs fs \<Rightarrow>
                           bind (stream_fastqs env fs temp_dir) (\<lambda>streamed. ret (Fastqs streamed)))
                 (\<lambda>fastqs. case index_paths of
                      [] \<Rightarrow> raise IndexError
                    | index_path # _ \<Rightarrow>
                        kallisto_bus env fastqs index_path technology out_dir threads False False
                          paired strand))
      else ret bus_result)"

definition default_bus_result :: "env \<Rightarrow> string \<Rightarrow> pydict" where
  "default_bus_result env out_dir =
     [(''bus'', Path (path_join out_dir (constants env ''BUS_FILENAME''))),
      (''ecmap'', Path (path_join out_dir (constants env ''ECMAP_FILENAME''))),
      (''txnames'', Path (path_join out_dir (constants env ''TXNAMES_FILENAME''))),
      (''info'', Path (path_join out_dir (constants env ''KALLISTO_INFO_FILENAME'')))]"

text \<open>
  What follows \<open>kallisto bus\<close> (lines 1372-1441 of \<open>count\<close>; 1640-1678 of
  \<open>count_smartseq3\<close> and 2077-2115 of \<open>count_velocity\<close> are the same with no
  feature barcoding and no batch file): sort the BUS file, get a whitelist if none
  was given (and \<open>fastqs\<close> is not a batch file), project and sort again for feature
  barcoding, inspect, and unless \<open>fastqs\<close> is a batch file correct and sort. The
  result is \<open>prev_result\<close>, \<open>whitelist_path\<close>, \<open>inspect_result\<close> if it was assigned,
  and \<open>unfiltered_results\<close>.
\<close>

definition sort_correct_stage ::
  "env \<Rightarrow> string \<Rightarrow> string \<Rightarrow> string \<Rightarrow> int \<Rightarrow> string \<Rightarrow> pydict \<Rightarrow> string option \<Rightarrow> bool \<Rightarrow> bool
     \<Rightarrow> bool \<Rightarrow> pydict \<Rightarrow> (pydict \<times> string option \<times> pydict option \<times> pydict) act" where
  "sort_correct_stage env technology out_dir temp_dir threads memory bus_result whitelist_path0 is_batch
       FB inspect unfiltered_results0 =
     bind (getpath bus_result ''bus'')
     (\<lambda>bus. bind (bustools_sort env bus
                    (path_join temp_dir (update_filename env (basename bus) (constants env ''SORT_CODE'')))
                    temp_dir threads memory False)
     (\<lambda>sort_result. bind (getpath sort_result ''bus'')
     (\<lambda>sorted_bus.
     bind (if \<not> truthy_str whitelist_path0 \<and> \<not> is_batch
           then bind (copy_or_create_whitelist env technology sorted_bus out_dir)
                  (\<lambda>wl. ret (Some wl, dict_update unfiltered_results0 [(''whitelist'', Path wl)]))
           else ret (whitelist_path0, unfiltered_results0))
     (\<lambda>wu. let whitelist_path = fst wu; unfiltered_results = snd wu in
     bind (if FB
           then bind (emit (Ext ''copy_map'' [Str technology, Str out_dir]))
                (\<lambda>_. let map_path = copy_map env technology out_dir in
                bind (getpath bus_result ''ecmap'')
                (\<lambda>ecmap. bind (getpath bus_result ''txnames'')
                (\<lambda>txnames. bind (bustools_project env sorted_bus
                                   (path_join temp_dir
                                      (update_filename env (basename sorted_bus)
                                         (constants env ''PROJECT_CODE'')))
                                   map_path ecmap txnames)
                (\<lambda>project_result. bind (getpath project_result ''bus'')
                (\<lambda>project_bus. bustools_sort env project_bus
                                   (path_join temp_dir
                                      (update_filename env (basename project_bus)
                                         (constants env ''SORT_CODE'')))
                                   temp_dir threads memory False)))))
           else ret sort_result)
     (\<lambda>prev_result.
     bind (if inspect
           then bind (getpath prev_result ''bus'')
                (\<lambda>prev_bus. bind (bustools_inspect env prev_bus
                                    (path_join out_dir (constants env ''INSPECT_FILENAME''))
                                    whitelist_path None)
                (\<lambda>inspect_result. ret (Some inspect_result, dict_update unfiltered_results inspect_result)))
           else ret (None, unfiltered_results))
     (\<lambda>iu. let inspect_result = fst iu; unfiltered_results = snd iu in
     if \<not> is_batch
     then bind (getpath prev_result ''bus'')
          (\<lambda>prev_bus. bind (bustools_correct env prev_bus
                              (path_join temp_dir
                                 (update_filename env (basename prev_bus) (constants env ''CORRECT_CODE'')))
                              whitelist_path)
          (\<lambda>corrected. bind (getpath corrected ''bus'')
          (\<lambda>corrected_bus. bind (bustools_sort env corrected_bus
                                   (path_join out_dir
                                      (''output.'' @ constants env ''UNFILTERED_CODE'' @ ''.bus''))
                                   temp_dir threads memory False)
          (\<lambda>prev_result. bind (getitem prev_result ''bus'')
          (\<lambda>scs. ret (prev_result, whitelist_path, inspect_result,
                       dict_update unfiltered_results [(''bus_scs'', scs)]))))))
     else ret (prev_result, whitelist_path, inspect_result, unfiltered_results)))))))"

definition val_opt :: "val \<Rightarrow> string option" where
  "val_opt v = (case v of Path p \<Rightarrow> Some p | _ \<Rightarrow> None)"

definition cm_technology :: "string \<Rightarrow> bool" where
  "cm_technology technology = (upper technology \<in> {''BULK'', ''SMARTSEQ2''})"

text \<open>
  \<open>count\<close>, lines 1443-1510: count, quantify for BULK or SMARTSEQ2 with \<open>tcc\<close>,
  convert. The result is \<open>count_result\<close> and \<open>unfiltered_results\<close>.
\<close>

definition count_counts_stage ::
  "env \<Rightarrow> string \<Rightarrow> string \<Rightarrow> string \<Rightarrow> pydict \<Rightarrow> pydict \<Rightarrow> bool \<Rightarrow> bool \<Rightarrow> bool \<Rightarrow> int \<Rightarrow> bool
     \<Rightarrow> bool \<Rightarrow> bool \<Rightarrow> int option \<Rightarrow> int option \<Rightarrow> bool \<Rightarrow> bool \<Rightarrow> pydict
     \<Rightarrow> (pydict \<times> pydict) act" where
  "count_counts_stage env t2g_path technology out_dir bus_result prev_result tcc mm kite threads loom
       h5ad cellranger fragment_l fragment_s umi_gene em unfiltered_results0 =
     (let counts_dir = path_join out_dir (constants env ''UNFILTERED_COUNTS_DIR'') in
      bind (make_directory counts_dir)
      (\<lambda>_. let counts_prefix = path_join counts_dir
                    (if tcc then constants env ''TCC_PREFIX''
                     else if kite then constants env ''FEATURE_PREFIX''
                     else constants env ''COUNTS_PREFIX'');
                cm = cm_technology technology;
                quant = (cm \<and> tcc);
                quant_dir = path_join out_dir (constants env ''UNFILTERED_QUANT_DIR'')
      in
      bind (getpath prev_result ''bus'')
      (\<lambda>prev_bus. bind (getpath bus_result ''ecmap'')
      (\<lambda>ecmap. bind (getpath bus_result ''txnames'')
      (\<lambda>txnames. bind (bustools_count env prev_bus counts_prefix t2g_path ecmap txnames tcc
                         (mm \<or> tcc) cm umi_gene em)
      (\<lambda>count_result. let unfiltered_results = dict_update unfiltered_results0 count_result in
      bind (if quant
            then bind (make_directory quant_dir)
                 (\<lambda>_. bind (getpath count_result ''mtx'')
                 (\<lambda>mtx. bind (getpath bus_result ''saved_index'')
                 (\<lambda>saved_index. bind (getpath bus_result ''ecmap'')
                 (\<lambda>ecmap. bind (kallisto_quant_tcc env mtx saved_index ecmap t2g_path quant_dir
                                  (val_opt (dict_get bus_result ''flens'')) fragment_l fragment_s threads)
                 (\<lambda>quant_result. ret (quant_result, dict_update unfiltered_results quant_result))))))
            else ret ([], unfiltered_results))
      (\<lambda>qu. let quant_result = fst qu; unfiltered_results = snd qu in
      bind (if loom \<or> h5ad
            then (let result = (if quant then quant_result else count_result);
                      name = (if kite then constants env ''FEATURE_NAME''
                              else if quant then constants env ''TRANSCRIPT_NAME''
                              else constants env ''GENE_NAME'')
                  in
                  bind (getpath result ''mtx'')
                  (\<lambda>mtx. bind (getpath count_result ''barcodes'')
                  (\<lambda>barcodes. bind (if quant then getitem result ''txnames''
                                      else ret (dict_get result ''genes''))
                  (\<lambda>genes. bind (getitem bus_result ''txnames'')
                  (\<lambda>txn. bind (convert_matrix env (if quant then quant_dir else counts_dir) mtx barcodes
                                 (val_arg genes) (val_arg (dict_get count_result ''ec''))
                                 (Str t2g_path) (val_arg txn) name loom h5ad (tcc \<and> \<not> quant) threads)
                  (\<lambda>converted. ret (dict_update unfiltered_results converted)))))))
            else ret unfiltered_results)
      (\<lambda>unfiltered_results.
      if cellranger
      then bind (getpath count_result ''mtx'')
           (\<lambda>mtx. bind (getpath count_result ''barcodes'')
           (\<lambda>barcodes. bind (getpath count_result ''genes'')
           (\<lambda>genes. bind (matrix_to_cellranger env mtx barcodes genes t2g_path
                            (path_join counts_dir (constants env ''CELLRANGER_DIR'')))
           (\<lambda>cr_result. ret (count_result,
                             dict_update unfiltered_results [(''cellranger'', Dict cr_result)])))))
      else ret (count_result, unfiltered_results)))))))))"

text \<open>
  \<open>count\<close>, lines 1443-1566: count and quantify, filter, statistics and report.
  \<open>results\<close> holds \<open>unfiltered_results\<close> under \<open>'unfiltered'\<close> by reference, so
  it is assembled at the end.
\<close>

definition count_tail ::
  "env \<Rightarrow> string \<Rightarrow> string \<Rightarrow> string \<Rightarrow> bool \<Rightarrow> bool \<Rightarrow> string option \<Rightarrow> int option \<Rightarrow> bool
     \<Rightarrow> string \<Rightarrow> int \<Rightarrow> string \<Rightarrow> bool \<Rightarrow> bool \<Rightarrow> bool \<Rightarrow> bool \<Rightarrow> int option \<Rightarrow> int option
     \<Rightarrow> bool \<Rightarrow> bool \<Rightarrow> pydict \<Rightarrow> pydict \<times> string option \<times> pydict option \<times> pydict
     \<Rightarrow> pydict act" where
  "count_tail env t2g_path technology out_dir tcc mm filter_opt filter_threshold kite temp_dir threads memory loom h5ad cellranger report fragment_l fragment_s umi_gene em bus_result st =
     (let prev_result = fst st; inspect_result = fst (snd (snd st)) in
     bind (count_counts_stage env t2g_path technology out_dir bus_result prev_result tcc mm kite
             threads loom h5ad cellranger fragment_l fragment_s umi_gene em (snd (snd (snd st))))
     (\<lambda>cu. let count_result = fst cu; unfiltered_results = snd cu in
     bind (if filter_opt = Some ''bustools''
           then bind (getpath prev_result ''bus'')
                (\<lambda>prev_bus. bind (getpath bus_result ''ecmap'')
                (\<lambda>ecmap. bind (getpath bus_result ''txnames'')
                (\<lambda>txnames. bind (filter_with_bustools env prev_bus ecmap txnames t2g_path
                                   (path_join out_dir (constants env ''FILTER_WHITELIST_FILENAME''))
                                   (path_join out_dir
                                      (''output.'' @ constants env ''FILTERED_CODE'' @ ''.bus''))
                                   filter_threshold
                                   (Some (path_join (path_join out_dir (constants env ''FILTERED_COUNTS_DIR''))
                                      (if tcc then constants env ''TCC_PREFIX''
                                       else if kite then constants env ''FEATURE_PREFIX''
                                       else constants env ''COUNTS_PREFIX'')))
                                   tcc False kite temp_dir threads memory True loom h5ad False
                                   umi_gene em)
                (\<lambda>filtered. ret [(''filtered'', Dict filtered)]))))
           else ret [])
     (\<lambda>filtered_item.
     bind (emit (Ext ''STATS.end'' []))
     (\<lambda>_. let stats_arg = path_join out_dir (constants env ''KB_INFO_FILENAME'');
               stats_path = stats_save env stats_arg
     in
     bind (emit (Ext ''STATS.save'' [Str stats_arg]))
     (\<lambda>_. bind (if report
                 then (let nb_path = path_join out_dir (constants env ''REPORT_NOTEBOOK_FILENAME'');
                           html_path = path_join out_dir (constants env ''REPORT_HTML_FILENAME'')
                       in
                       bind (getitem bus_result ''info'')
                       (\<lambda>info. bind (case inspect_result of
                                       None \<Rightarrow> raise (UnboundLocalError ''inspect_result'')
                                     | Some ir \<Rightarrow> getitem ir ''inspect'')
                       (\<lambda>insp. bind (getitem count_result ''mtx'')
                       (\<lambda>mtx. let args = [Str stats_path, val_arg info, val_arg insp, Str nb_path,
                                          Str html_path, val_arg mtx,
                                          val_arg (dict_get count_result ''barcodes''),
                                          val_arg (dict_get count_result ''genes''),
                                          Str t2g_path, Str temp_dir]
                       in bind (emit (Ext ''render_report'' args))
                          (\<lambda>_. ret (dict_update unfiltered_results (render_report env args)))))))
                 else ret unfiltered_results)
     (\<lambda>unfiltered_results.
        ret ([(''unfiltered'', Dict unfiltered_results)] @ filtered_item
             @ [(''stats'', Path stats_path)])))))))"

text \<open>
  \<open>count\<close>: statistics, the output directory, \<open>kallisto bus\<close> (as BULK for
  SMARTSEQ2), sorting and correcting, then the rest.
\<close>

definition count ::
  "env \<Rightarrow> index_arg \<Rightarrow> string \<Rightarrow> string \<Rightarrow> string \<Rightarrow> fastqs \<Rightarrow> string option \<Rightarrow> bool \<Rightarrow> bool
     \<Rightarrow> string option \<Rightarrow> int option \<Rightarrow> bool \<Rightarrow> bool \<Rightarrow> string \<Rightarrow> int \<Rightarrow> string \<Rightarrow> bool \<Rightarrow> bool
     \<Rightarrow> bool \<Rightarrow> bool \<Rightarrow> bool \<Rightarrow> bool \<Rightarrow> int option \<Rightarrow> int option \<Rightarrow> bool \<Rightarrow> string option
     \<Rightarrow> bool \<Rightarrow> bool \<Rightarrow> pydict act" where
  "count env index_paths0 t2g_path technology out_dir fastqs whitelist_path tcc mm filter_opt
       filter_threshold kite FB temp_dir threads memory overwrite loom h5ad cellranger inspect report
       fragment_l fragment_s paired strand umi_gene em =
     bind (emit (Ext ''STATS.start'' []))
     (\<lambda>_. let index_paths = index_list index_paths0; is_batch = is_batch_of fastqs in
     bind (make_directory out_dir)
     (\<lambda>_. let bus_result0 =
                (if cm_technology technology
                 then dict_set ''saved_index''
                        (Path (path_join out_dir (constants env ''SAVED_INDEX_FILENAME'')))
                        (default_bus_result env out_dir)
                 else default_bus_result env out_dir)
     in
     bind (bus_stage env bus_result0 True fastqs index_paths
             (if upper technology = ''SMARTSEQ2'' then ''BULK'' else technology)
             out_dir temp_dir threads memory overwrite paired strand)
     (\<lambda>bus_result.
     bind (sort_correct_stage env technology out_dir temp_dir threads memory bus_result whitelist_path
             is_batch FB inspect (dict_update [] bus_result))
     (\<lambda>st. count_tail env t2g_path technology out_dir tcc mm filter_opt filter_threshold kite temp_dir threads memory loom h5ad cellranger report fragment_l fragment_s umi_gene em bus_result st))))"





definition update_at :: "string \<Rightarrow> pydict \<Rightarrow> pydict \<Rightarrow> pydict act" where
  "update_at k other d =
     (case map_of d k of
        None \<Rightarrow> raise (KeyError k)
      | Some (Dict inner) \<Rightarrow> ret (dict_set k (Dict (dict_update inner other)) d)
      | Some _ \<Rightarrow> raise AttributeError)"

definition getitem2 :: "pydict \<Rightarrow> string \<Rightarrow> string \<Rightarrow> val act" where
  "getitem2 d k1 k2 =
     bind (getitem d k1) (\<lambda>v. case v of Dict inner \<Rightarrow> getitem inner k2 | _ \<Rightarrow> raise TypeError)"

definition get2 :: "pydict \<Rightarrow> string \<Rightarrow> string \<Rightarrow> val act" where
  "get2 d k1 k2 =
     bind (getitem d k1)
       (\<lambda>v. case v of Dict inner \<Rightarrow> ret (dict_get inner k2) | _ \<Rightarrow> raise AttributeError)"

fun foldM :: "('a \<Rightarrow> 's \<Rightarrow> 's act) \<Rightarrow> 'a list \<Rightarrow> 's \<Rightarrow> 's act" where
  "foldM f [] st = ret st"
| "foldM f (x # xs) st = bind (f x st) (\<lambda>st'. foldM f xs st')"

fun mapM :: "('a \<Rightarrow> 'b act) \<Rightarrow> 'a list \<Rightarrow> 'b list act" where
  "mapM f [] = ret []"
| "mapM f (x # xs) = bind (f x) (\<lambda>y. bind (mapM f xs) (\<lambda>ys. ret (y # ys)))"







section \<open>Computing with actions\<close>

lemma pre_tuple: "pre evs (r, evs', n) = (r, evs @ evs', n)"
  by (simp add: pre_def)

lemma pre_pre: "pre evs (pre evs' out) = pre (evs @ evs') out"
  by (simp add: pre_def)

lemma pre_Nil: "pre [] out = out"
  by (simp add: pre_def)

lemma ret_apply: "ret x n = (Inr x, [], n)"
  by (simp add: ret_def)

lemma raise_apply: "raise e n = (Inl e, [], n)"
  by (simp add: raise_def)

lemma bind_ret: "bind (ret x) f = f x"
  by (rule ext) (simp add: bind_def ret_def pre_def)

lemma bind_raise: "bind (raise e) f = raise e"
  by (rule ext) (simp add: bind_def raise_def)

lemma bind_emit: "bind (emit ev) f n = pre [ev] (f () n)"
  by (simp add: bind_def emit_def)

lemma bind_assoc: "bind (bind m f) g = bind m (\<lambda>x. bind (f x) g)"
  by (rule ext) (auto simp: bind_def pre_def split: prod.splits sum.splits)

lemma bind_known: "m n = (Inr x, evs, n') \<Longrightarrow> bind m f n = pre evs (f x n')"
  by (simp add: bind_def)


lemma events_pre: "events (pre evs out) = evs @ events out"
  by (simp add: events_def pre_def)

lemma result_pre: "result (pre evs out) = result out"
  by (simp add: result_def pre_def)

lemma emit_all_outcome: "emit_all evs n = (Inr (), evs, n)"
  by (induction evs arbitrary: n) (simp_all add: ret_apply bind_emit pre_def)

lemma bind_emit_all: "bind (emit_all evs) f n = pre evs (f () n)"
  by (simp add: bind_known [OF emit_all_outcome])

lemma bind_if: "bind (if c then a else b) f = (if c then bind a f else bind b f)"
  by simp

lemma bind_lam: "bind (\<lambda>a. (Inr x, evs, a)) f n = pre evs (f x n)"
  by (simp add: bind_def)

lemma bind_lam_err: "bind (\<lambda>a. (Inl e, evs, a)) f n = (Inl e, evs, n)"
  by (simp add: bind_def)

lemmas act_simps = run_executable_def bind_emit bind_emit_all bind_ret bind_raise bind_assoc
  ret_apply raise_apply pre_tuple pre_pre make_directory_def move_file_def
  bind_if bind_lam bind_lam_err

subsection \<open>What each wrapper does: one command, one dictionary\<close>

lemma kallisto_pseudo_outcome:
  "kallisto_pseudo env batch_path index_path out_dir threads n =
     (Inr [(''mtx'', Path (path_join out_dir (constants env ''ABUNDANCE_FILENAME''))),
           (''ecmap'', Path (path_join out_dir (constants env ''ECMAP_FILENAME''))),
           (''cells'', Path (path_join out_dir (constants env ''CELLS_FILENAME''))),
           (''txnames'', Path (path_join out_dir (constants env ''TXNAMES_FILENAME''))),
           (''info'', Path (path_join out_dir (constants env ''KALLISTO_INFO_FILENAME'')))],
      [Run [opt_arg (get_kallisto_binary_path env), Str ''pseudo'', Str ''--quant'',
            Str ''-i'', Str index_path, Str ''-o'', Str out_dir, Str ''-b'', Str batch_path,
            Str ''-t'', Num threads]], n)"
  by (simp add: kallisto_pseudo_def act_simps)

definition kallisto_bus_command ::
  "env \<Rightarrow> fastqs \<Rightarrow> string \<Rightarrow> string \<Rightarrow> string \<Rightarrow> int \<Rightarrow> bool \<Rightarrow> bool \<Rightarrow> bool \<Rightarrow> string option
     \<Rightarrow> arg list" where
  "kallisto_bus_command env fastqs index_path technology out_dir threads n k paired strand =
     [opt_arg (get_kallisto_binary_path env), Str ''bus'', Str ''-i'', Str index_path,
      Str ''-o'', Str out_dir]
     @ (if \<not> is_batch_of fastqs then [Str ''-x'', Str technology] else [])
     @ [Str ''-t'', Num threads]
     @ (if n then [Str ''--num''] else [])
     @ (if k then [Str ''--kmer''] else [])
     @ (if paired then [Str ''--paired''] else [])
     @ (if strand = Some ''unstranded'' then [Str ''--unstranded'']
        else if strand = Some ''forward'' then [Str ''--fr-stranded'']
        else if strand = Some ''reverse'' then [Str ''--rf-stranded'']
        else [])
     @ (case fastqs of Batch b \<Rightarrow> [Str ''--batch'', Str b] | Fastqs fs \<Rightarrow> map Str fs)"

definition kallisto_bus_result :: "env \<Rightarrow> string \<Rightarrow> string \<Rightarrow> bool \<Rightarrow> pydict" where
  "kallisto_bus_result env technology out_dir paired =
     [(''bus'', Path (path_join out_dir (constants env ''BUS_FILENAME''))),
      (''ecmap'', Path (path_join out_dir (constants env ''ECMAP_FILENAME''))),
      (''txnames'', Path (path_join out_dir (constants env ''TXNAMES_FILENAME''))),
      (''info'', Path (path_join out_dir (constants env ''KALLISTO_INFO_FILENAME'')))]
     @ (if paired then [(''flens'', Path (path_join out_dir (constants env ''FLENS_FILENAME'')))] else [])
     @ (if upper technology \<in> {''BULK'', ''SMARTSEQ3''}
        then [(''saved_index'', Path (path_join out_dir (constants env ''SAVED_INDEX_FILENAME'')))]
        else [])"

lemma kallisto_bus_outcome:
  "kallisto_bus env fastqs index_path technology out_dir threads nflag k paired strand n =
     (Inr (kallisto_bus_result env technology out_dir paired),
      [Run (kallisto_bus_command env fastqs index_path technology out_dir threads nflag k paired strand)],
      n)"
  by (simp add: kallisto_bus_def Let_def act_simps kallisto_bus_command_def kallisto_bus_result_def)

lemma kallisto_quant_tcc_outcome:
  "kallisto_quant_tcc env mtx_path saved_index_path ecmap_path t2g_path out_dir flens_path l s threads n =
     (Inr [(''genes'', Path (path_join out_dir (constants env ''GENES_FILENAME''))),
           (''gene_mtx'', Path (path_join out_dir (constants env ''ABUNDANCE_GENE_FILENAME''))),
           (''gene_tpm_mtx'', Path (path_join out_dir (constants env ''ABUNDANCE_GENE_TPM_FILENAME''))),
           (''mtx'', Path (path_join out_dir (constants env ''ABUNDANCE_FILENAME''))),
           (''tpm_mtx'', Path (path_join out_dir (constants env ''ABUNDANCE_TPM_FILENAME''))),
           (''fld'', Path (path_join out_dir (constants env ''FLD_FILENAME''))),
           (''txnames'', Path (path_join out_dir (constants env ''TXNAMES_FILENAME'')))],
      [Run ([opt_arg (get_kallisto_binary_path env), Str ''quant-tcc'', Str ''-o'', Str out_dir,
             Str ''-i'', Str saved_index_path, Str ''-e'', Str ecmap_path, Str ''-g'', Str t2g_path,
             Str ''-t'', Num threads]
            @ (if truthy_str flens_path then [Str ''-f'', opt_arg flens_path] else [])
            @ (if truthy_int l then [Str ''-l'', Num (the l)] else [])
            @ (if truthy_int s then [Str ''-s'', Num (the s)] else [])
            @ [Str mtx_path])], n)"
  by (simp add: kallisto_quant_tcc_def act_simps)

lemma bustools_mash_outcome:
  "bustools_mash env out_dirs out_dir n =
     (Inr [(''bus'', Path (path_join out_dir (constants env ''BUS_MASHED_FILENAME''))),
           (''ecmap'', Path (path_join out_dir (constants env ''ECMAP_FILENAME''))),
           (''txnames'', Path (path_join out_dir (constants env ''TXNAMES_FILENAME''))),
           (''info'', if is_dry env then NoneV
                      else Path (path_join out_dir (constants env ''KALLISTO_INFO_FILENAME'')))],
      Run ([opt_arg (get_bustools_binary_path env), Str ''mash'', Str ''-o'', Str out_dir]
           @ map Str out_dirs)
      # (if is_dry env then []
         else map (\<lambda>o_dir. Ext ''json.load''
                     [Str (path_join o_dir (constants env ''KALLISTO_INFO_FILENAME''))]) out_dirs
              @ [JsonDump (path_join out_dir (constants env ''KALLISTO_INFO_FILENAME''))
                   (combine_run_info env out_dirs)]), n)"
  by (simp add: bustools_mash_def act_simps)

lemma bustools_merge_outcome:
  "bustools_merge env bus_path out_dir ecmap_path txnames_path n =
     (Inr [(''bus'', Path (path_join out_dir (constants env ''BUS_MERGED_FILENAME''))),
           (''ecmap'', Path (path_join out_dir (constants env ''ECMAP_MERGED_FILENAME'')))],
      [Run [opt_arg (get_bustools_binary_path env), Str ''merge'', Str ''-o'', Str out_dir,
            Str ''-e'', Str ecmap_path, Str ''-t'', Str txnames_path, Str bus_path]], n)"
  by (simp add: bustools_merge_def act_simps)

lemma bustools_project_outcome:
  "bustools_project env bus_path out_path map_path ecmap_path txnames_path n =
     (Inr [(''bus'', Path out_path)],
      [Run [opt_arg (get_bustools_binary_path env), Str ''project'', Str ''-o'', Str out_path,
            Str ''-m'', Str map_path, Str ''-e'', Str ecmap_path, Str ''-t'', Str txnames_path,
            Str ''--barcode'', Str bus_path]], n)"
  by (simp add: bustools_project_def act_simps)

lemma bustools_sort_outcome:
  "bustools_sort env bus_path out_path temp_dir threads memory flags n =
     (Inr [(''bus'', Path out_path)],
      [Run ([opt_arg (get_bustools_binary_path env), Str ''sort'', Str ''-o'', Str out_path,
             Str ''-T'', Str temp_dir, Str ''-t'', Num threads, Str ''-m'', Str memory]
            @ (if flags then [Str ''--flags''] else []) @ [Str bus_path])], n)"
  by (simp add: bustools_sort_def act_simps)

lemma bustools_inspect_outcome:
  "bustools_inspect env bus_path out_path whitelist_path ecmap_path n =
     (Inr [(''inspect'', Path out_path)],
      [Run ([opt_arg (get_bustools_binary_path env), Str ''inspect'', Str ''-o'', Str out_path]
            @ (if truthy_str whitelist_path then [Str ''-w'', opt_arg whitelist_path] else [])
            @ (if truthy_str ecmap_path then [Str ''-e'', opt_arg ecmap_path] else [])
            @ [Str bus_path])], n)"
  by (simp add: bustools_inspect_def act_simps)

lemma bustools_correct_outcome:
  "bustools_correct env bus_path out_path whitelist_path n =
     (Inr [(''bus'', Path out_path)],
      [Run [opt_arg (get_bustools_binary_path env), Str ''correct'', Str ''-o'', Str out_path,
            Str ''-w'', opt_arg whitelist_path, Str bus_path]], n)"
  by (simp add: bustools_correct_def act_simps)

definition bustools_count_result :: "string \<Rightarrow> bool \<Rightarrow> pydict" where
  "bustools_count_result out_prefix tcc =
     (if tcc
      then [(''mtx'', Path (out_prefix @ ''.mtx'')), (''ec'', Path (out_prefix @ ''.ec.txt'')),
            (''barcodes'', Path (out_prefix @ ''.barcodes.txt''))]
      else [(''mtx'', Path (out_prefix @ ''.mtx'')), (''genes'', Path (out_prefix @ ''.genes.txt'')),
            (''barcodes'', Path (out_prefix @ ''.barcodes.txt''))])"

definition bustools_count_command ::
  "env \<Rightarrow> string \<Rightarrow> string \<Rightarrow> string \<Rightarrow> string \<Rightarrow> string \<Rightarrow> bool \<Rightarrow> bool \<Rightarrow> bool \<Rightarrow> bool \<Rightarrow> bool
     \<Rightarrow> arg list" where
  "bustools_count_command env bus_path out_prefix t2g_path ecmap_path txnames_path tcc mm cm umi_gene em =
     [opt_arg (get_bustools_binary_path env), Str ''count'', Str ''-o'', Str out_prefix,
      Str ''-g'', Str t2g_path, Str ''-e'', Str ecmap_path, Str ''-t'', Str txnames_path]
     @ (if \<not> tcc then [Str ''--genecounts''] else [])
     @ (if mm then [Str ''--multimapping''] else [])
     @ (if cm then [Str ''--cm''] else [])
     @ (if umi_gene then [Str ''--umi-gene''] else [])
     @ (if em then [Str ''--em''] else [])
     @ [Str bus_path]"

lemma bustools_count_outcome:
  "bustools_count env bus_path out_prefix t2g_path ecmap_path txnames_path tcc mm cm umi_gene em n =
     (Inr (bustools_count_result out_prefix tcc),
      [Run (bustools_count_command env bus_path out_prefix t2g_path ecmap_path txnames_path
              tcc mm cm umi_gene em)], n)"
  by (simp add: bustools_count_def act_simps dict_literal_def dict_update_def
      bustools_count_result_def bustools_count_command_def)

lemma bustools_capture_outcome:
  "bustools_capture env bus_path out_path capture_path ecmap_path txnames_path capture_type complement n =
     (Inr [(''bus'', Path out_path)],
      [Run ([opt_arg (get_bustools_binary_path env), Str ''capture'', Str ''-o'', Str out_path,
             Str ''-c'', Str capture_path]
            @ (if truthy_str ecmap_path then [Str ''-e'', opt_arg ecmap_path] else [])
            @ (if truthy_str txnames_path then [Str ''-t'', opt_arg txnames_path] else [])
            @ (if complement then [Str ''--complement''] else [])
            @ [Str (''--'' @ capture_type), Str bus_path])], n)"
  by (simp add: bustools_capture_def act_simps)

lemma bustools_whitelist_outcome:
  "bustools_whitelist env bus_path out_path threshold n =
     (Inr [(''whitelist'', Path out_path)],
      [Run ([opt_arg (get_bustools_binary_path env), Str ''whitelist'', Str ''-o'', Str out_path]
            @ (if truthy_int threshold then [Str ''--threshold'', Num (the threshold)] else [])
            @ [Str bus_path])], n)"
  by (simp add: bustools_whitelist_def act_simps)

lemmas wrapper_binds =
  bind_known [OF kallisto_pseudo_outcome] bind_known [OF kallisto_bus_outcome]
  bind_known [OF kallisto_quant_tcc_outcome] bind_known [OF bustools_mash_outcome]
  bind_known [OF bustools_merge_outcome] bind_known [OF bustools_project_outcome]
  bind_known [OF bustools_sort_outcome] bind_known [OF bustools_inspect_outcome]
  bind_known [OF bustools_correct_outcome] bind_known [OF bustools_count_outcome]
  bind_known [OF bustools_capture_outcome] bind_known [OF bustools_whitelist_outcome]

subsection \<open>The converters\<close>

lemma convert_transcripts_to_genes_outcome:
  "convert_transcripts_to_genes env txnames_path t2g_path genes_path n
      = (Inr genes_path,
         [Ext ''read_t2g'' [Str t2g_path], Ext ''open_as_text'' [Str txnames_path, Str ''r''],
          Write genes_path (map (gene_line (read_t2g env t2g_path)) (nonblank_lines env txnames_path))],
         n)"
  by (simp add: convert_transcripts_to_genes_def Let_def act_simps)

definition adata_results :: "env \<Rightarrow> string \<Rightarrow> bool \<Rightarrow> bool \<Rightarrow> pydict" where
  "adata_results env counts_dir loom h5ad =
     (if loom then [(''loom'', Path (path_join counts_dir (constants env ''ADATA_PREFIX'' @ ''.loom'')))]
      else [])
     @ (if h5ad then [(''h5ad'', Path (path_join counts_dir (constants env ''ADATA_PREFIX'' @ ''.h5ad'')))]
        else [])"

definition adata_events :: "env \<Rightarrow> string \<Rightarrow> bool \<Rightarrow> bool \<Rightarrow> event list" where
  "adata_events env counts_dir loom h5ad =
     (if loom
      then [Ext ''adata.write_loom'' [Str (path_join counts_dir (constants env ''ADATA_PREFIX'' @ ''.loom''))]]
      else [])
     @ (if h5ad
        then [Ext ''adata.write'' [Str (path_join counts_dir (constants env ''ADATA_PREFIX'' @ ''.h5ad''))]]
        else [])"

lemma write_adata_outcome:
  "write_adata env counts_dir loom h5ad n =
     (Inr (adata_results env counts_dir loom h5ad), adata_events env counts_dir loom h5ad, n)"
  by (simp add: write_adata_def Let_def act_simps dict_update_def adata_results_def adata_events_def)

lemma convert_matrix_outcome:
  "convert_matrix env counts_dir matrix_path barcodes_path genes_path ec_path t2g_path txnames_path
       name loom h5ad tcc threads n =
     (Inr (adata_results env counts_dir loom h5ad),
      import_adata (Str matrix_path) (Str barcodes_path) genes_path ec_path
                   (if tcc then txnames_path else t2g_path) name tcc threads
      # adata_events env counts_dir loom h5ad, n)"
  by (simp add: convert_matrix_def act_simps write_adata_outcome)

lemma convert_matrices_outcome:
  "convert_matrices env counts_dir matrix_paths barcodes_paths genes_paths ec_paths t2g_path
       txnames_path name loom h5ad nucleus tcc threads n =
     (Inr (adata_results env counts_dir loom h5ad),
      map (\<lambda>(matrix_path, barcodes_path, genes_ec_path).
                import_adata matrix_path barcodes_path genes_ec_path genes_ec_path
                  (if tcc then txnames_path else t2g_path) name tcc threads)
           (zip matrix_paths (zip barcodes_paths
              (if genes_paths = [] \<or> PyNone \<in> set genes_paths then ec_paths else genes_paths)))
      @ Ext (if nucleus then ''sum_anndatas'' else ''overlay_anndatas'') []
        # adata_events env counts_dir loom h5ad, n)"
  by (simp add: convert_matrices_def Let_def act_simps write_adata_outcome)

lemmas converter_binds =
  bind_known [OF convert_transcripts_to_genes_outcome] bind_known [OF convert_matrix_outcome]
  bind_known [OF convert_matrices_outcome]

subsection \<open>Streaming and the split over several indices\<close>

text \<open>
  What \<open>kallisto_bus_split\<close> is to do, round by round: stream the FASTQs, run
  \<open>kallisto bus\<close> with \<open>--num\<close> and \<open>--kmer\<close> into the part directory, sort the part
  by flag into a temporary file, and move that file over the part's BUS file.
\<close>

definition stream_result :: "env \<Rightarrow> string \<Rightarrow> string list \<Rightarrow> string list" where
  "stream_result env temp_dir fastqs =
     map (\<lambda>fastq. if is_remote env fastq
                   then stream_file env fastq (path_join temp_dir (basename fastq)) else fastq) fastqs"

definition stream_events :: "env \<Rightarrow> string \<Rightarrow> string list \<Rightarrow> event list" where
  "stream_events env temp_dir fastqs =
     concat (map (\<lambda>fastq. if is_remote env fastq
                   then [Ext ''stream_file'' [Str fastq, Str (path_join temp_dir (basename fastq))]]
                   else []) fastqs)"

lemma stream_fastqs_outcome:
  "stream_fastqs env fastqs temp_dir n
     = (Inr (stream_result env temp_dir fastqs), stream_events env temp_dir fastqs, n)"
  by (induction fastqs arbitrary: n)
     (simp_all add: stream_result_def stream_events_def act_simps bind_known)

lemma bind_lam_fresh: "bind (\<lambda>a. (Inr (g a), evs, Suc a)) f n = pre evs (f (g n) (Suc n))"
  by (simp add: bind_def)

fun split_part_events ::
  "env \<Rightarrow> nat \<Rightarrow> nat \<Rightarrow> string list \<Rightarrow> string list \<Rightarrow> string \<Rightarrow> string \<Rightarrow> int \<Rightarrow> string \<Rightarrow> bool
     \<Rightarrow> string option \<Rightarrow> event list" where
  "split_part_events env n i [] fastqs technology temp_dir threads memory paired strand = []"
| "split_part_events env n i (index_path # rest) fastqs technology temp_dir threads memory paired strand =
     (let part_dir = path_join temp_dir (''bus_part'' @ str_of_nat i);
          part_bus = path_join part_dir (constants env ''BUS_FILENAME'');
          tmp = get_temporary_filename env n temp_dir;
          streamed = stream_result env temp_dir fastqs
      in stream_events env temp_dir fastqs
         @ [Run (kallisto_bus_command env (Fastqs streamed) index_path technology part_dir threads
                   True True paired strand),
            Ext ''get_temporary_filename'' [Str temp_dir],
            Run [opt_arg (get_bustools_binary_path env), Str ''sort'', Str ''-o'', Str tmp,
                 Str ''-T'', Str temp_dir, Str ''-t'', Num threads, Str ''-m'', Str memory,
                 Str ''--flags'', Str part_bus],
            Ext ''move_file'' [Str tmp, Str part_bus]]
         @ split_part_events env (Suc n) (Suc i) rest streamed technology temp_dir threads memory
             paired strand)"

lemma bus_split_parts_outcome:
  "bus_split_parts env i index_paths fastqs technology temp_dir threads memory paired strand n
     = (Inr (map (\<lambda>j. path_join temp_dir (''bus_part'' @ str_of_nat j)) [i..<i + length index_paths]),
        split_part_events env n i index_paths fastqs technology temp_dir threads memory paired strand,
        n + length index_paths)"
proof (induction index_paths arbitrary: i fastqs n)
  case Nil
  then show ?case by (simp add: act_simps)
next
  case (Cons index_path rest)
  have "i < i + Suc (length rest)"
    by simp
  then have "[i..<i + Suc (length rest)] = i # [Suc i..<i + Suc (length rest)]"
    by (rule upt_conv_Cons)
  then have upt: "[i..<i + length (index_path # rest)] = i # [Suc i..<Suc i + length rest]"
    by (simp del: upt_Suc)
  show ?case
    unfolding upt
    by (simp add: Let_def act_simps wrapper_binds bind_known [OF stream_fastqs_outcome]
        fresh_temporary_filename_def bind_lam_fresh
        getpath_def bind_known [OF Cons.IH] del: upt_Suc)
qed


lemma kallisto_bus_split_outcome:
  "kallisto_bus_split env fastqs index_paths technology out_dir temp_dir threads memory paired strand n
     = (Inr [(''bus'', Path (path_join out_dir (constants env ''BUS_FILENAME''))),
             (''ecmap'', Path (path_join out_dir (constants env ''ECMAP_FILENAME''))),
             (''txnames'', Path (path_join out_dir (constants env ''TXNAMES_FILENAME''))),
             (''info'', Path (path_join out_dir (constants env ''KALLISTO_INFO_FILENAME'')))],
        split_part_events env n 0 index_paths (fastq_items fastqs) technology temp_dir threads memory
          paired strand
        @ events (bustools_mash env
            (map (\<lambda>j. path_join temp_dir (''bus_part'' @ str_of_nat j)) [0..<length index_paths])
            out_dir n)
        @ [Ext ''get_temporary_filename'' [Str temp_dir],
           Run [opt_arg (get_bustools_binary_path env), Str ''sort'', Str ''-o'',
                Str (get_temporary_filename env (n + length index_paths) temp_dir),
                Str ''-T'', Str temp_dir, Str ''-t'', Num threads, Str ''-m'', Str memory,
                Str ''--flags'', Str (path_join out_dir (constants env ''BUS_MASHED_FILENAME''))],
           Ext ''move_file'' [Str (get_temporary_filename env (n + length index_paths) temp_dir),
                Str (path_join out_dir (constants env ''BUS_MASHED_FILENAME''))],
           Run [opt_arg (get_bustools_binary_path env), Str ''merge'', Str ''-o'', Str out_dir,
                Str ''-e'', Str (path_join out_dir (constants env ''ECMAP_FILENAME'')),
                Str ''-t'', Str (path_join out_dir (constants env ''TXNAMES_FILENAME'')),
                Str (path_join out_dir (constants env ''BUS_MASHED_FILENAME''))],
           Ext ''move_file'' [Str (path_join out_dir (constants env ''BUS_MERGED_FILENAME'')),
                Str (path_join out_dir (constants env ''BUS_FILENAME''))],
           Ext ''move_file'' [Str (path_join out_dir (constants env ''ECMAP_MERGED_FILENAME'')),
                Str (path_join out_dir (constants env ''ECMAP_FILENAME''))]],
        Suc (n + length index_paths))"
  using bus_split_parts_outcome [of env 0 index_paths "fastq_items fastqs" technology temp_dir
      threads memory paired strand n]
  by (simp add: kallisto_bus_split_def Let_def act_simps wrapper_binds bind_known
      fresh_temporary_filename_def bind_lam_fresh getpath_def events_def bustools_mash_outcome)

lemma str_of_nat_small: "n < 10 \<Longrightarrow> str_of_nat n = [digit_char n]"
  by (simp add: str_of_nat.simps)

lemma str_of_nat_big:
  "\<not> n < 10 \<Longrightarrow> str_of_nat n = str_of_nat (n div 10) @ [digit_char (n mod 10)]"
  by (subst str_of_nat.simps) simp

lemma str_of_nat_nonempty: "str_of_nat n \<noteq> []"
  by (cases "n < 10") (simp_all add: str_of_nat_small str_of_nat_big)

lemma digit_char_inj: "a < 10 \<Longrightarrow> b < 10 \<Longrightarrow> digit_char a = digit_char b \<Longrightarrow> a = b"
proof -
  assume a: "a < 10" and b: "b < 10" and eq: "digit_char a = digit_char b"
  have d: "distinct ''0123456789''" by simp
  have l: "length ''0123456789'' = 10" by simp
  from eq have "''0123456789'' ! a = ''0123456789'' ! b" by (simp add: digit_char_def)
  with d a b l show "a = b" by (metis nth_eq_iff_index_eq)
qed

lemma str_of_nat_inj: "str_of_nat a = str_of_nat b \<Longrightarrow> a = b"
proof (induction a arbitrary: b rule: less_induct)
  case (less a)
  show ?case
  proof (cases "a < 10")
    case True
    show ?thesis
    proof (cases "b < 10")
      case True
      with \<open>a < 10\<close> less.prems show ?thesis
        by (simp add: str_of_nat_small digit_char_inj)
    next
      case False
      with \<open>a < 10\<close> less.prems str_of_nat_nonempty [of "b div 10"] show ?thesis
        by (simp add: str_of_nat_small str_of_nat_big Cons_eq_append_conv)
    qed
  next
    case False
    show ?thesis
    proof (cases "b < 10")
      case True
      with \<open>\<not> a < 10\<close> less.prems str_of_nat_nonempty [of "a div 10"] show ?thesis
        by (simp add: str_of_nat_small str_of_nat_big append_eq_Cons_conv)
    next
      case bf: False
      from False bf less.prems
      have e: "str_of_nat (a div 10) = str_of_nat (b div 10)"
        and d: "digit_char (a mod 10) = digit_char (b mod 10)"
        by (simp_all add: str_of_nat_big)
      from False have "a div 10 < a" by simp
      from less.IH [OF this e] have q: "a div 10 = b div 10" .
      have "a mod 10 = b mod 10"
        by (rule digit_char_inj [OF _ _ d]) simp_all
      with q show ?thesis
        by (metis div_mult_mod_eq)
    qed
  qed
qed

lemma part_dirs_distinct:
  "distinct (map (\<lambda>j. path_join temp_dir (''bus_part'' @ str_of_nat j)) [0..<k])"
proof -
  have "inj (\<lambda>j. path_join temp_dir (''bus_part'' @ str_of_nat j))"
    by (rule injI) (auto simp: path_join_def dest: str_of_nat_inj split: if_splits)
  then show ?thesis
    by (simp add: distinct_map inj_on_def inj_def)
qed


section \<open>\<open>config.py\<close>: setting the binary paths\<close>

text \<open>
  What the setters ask the operating system: \<open>shutil.which\<close>, \<open>os.path.isfile\<close>,
  \<open>os.path.abspath\<close> and \<open>os.access(_, os.X_OK)\<close>.
\<close>

record os_env =
  which :: "string \<Rightarrow> string option"
  isfile :: "string \<Rightarrow> bool"
  abspath :: "string \<Rightarrow> string"
  access_x_ok :: "string \<Rightarrow> bool"

definition set_kallisto_binary_path ::
  "os_env \<Rightarrow> string \<Rightarrow> config_state \<Rightarrow> (error + unit) \<times> config_state" where
  "set_kallisto_binary_path os path cfg =
     (let shutil_path = which os path in
      case (if truthy_str shutil_path then Inr (abspath os (the shutil_path))
            else if isfile os path then Inr (abspath os path)
            else Inl (Exception (''Unable to resolve path '' @ path))) of
        Inl e \<Rightarrow> (Inl e, cfg)
      | Inr actual_path \<Rightarrow>
          if \<not> access_x_ok os actual_path
          then (Inl (NotExecutableException (actual_path @ '' is not executable'')), cfg)
          else (Inr (), cfg\<lparr>KALLISTO_PATH := Some actual_path\<rparr>))"

definition set_bustools_binary_path ::
  "os_env \<Rightarrow> string \<Rightarrow> config_state \<Rightarrow> (error + unit) \<times> config_state" where
  "set_bustools_binary_path os path cfg =
     (let shutil_path = which os path in
      case (if truthy_str shutil_path then Inr (abspath os (the shutil_path))
            else if isfile os path then Inr (abspath os path)
            else Inl (Exception (''Unable to resolve path '' @ path))) of
        Inl e \<Rightarrow> (Inl e, cfg)
      | Inr actual_path \<Rightarrow>
          if \<not> access_x_ok os actual_path
          then (Inl (NotExecutableException (actual_path @ '' is not executable'')), cfg)
          else (Inr (), cfg\<lparr>BUSTOOLS_PATH := Some actual_path\<rparr>))"

text \<open>The path a resolvable argument resolves to.\<close>

definition resolved_path :: "os_env \<Rightarrow> string \<Rightarrow> string" where
  "resolved_path os path =
     (if truthy_str (which os path) then abspath os (the (which os path)) else abspath os path)"

definition resolvable :: "os_env \<Rightarrow> string \<Rightarrow> bool" where
  "resolvable os path = (truthy_str (which os path) \<or> isfile os path)"

section \<open>A concrete environment\<close>

text \<open>
  An environment to run the model in: typical file names for the constants (a name
  without an entry stands for itself), both binaries installed, nothing on disk yet,
  a whitelist shipped for 10XV2 only, and the scheme of a URL read up to its colon.
\<close>

definition example_constants :: "string \<Rightarrow> string" where
  "example_constants name =
     (case map_of
        [(''BUS_FILENAME'', ''output.bus''),
         (''ECMAP_FILENAME'', ''matrix.ec''),
         (''TXNAMES_FILENAME'', ''transcripts.txt''),
         (''KALLISTO_INFO_FILENAME'', ''run_info.json''),
         (''SAVED_INDEX_FILENAME'', ''index.saved''),
         (''FLENS_FILENAME'', ''flens.txt''),
         (''WHITELIST_FILENAME'', ''whitelist.txt''),
         (''INSPECT_FILENAME'', ''inspect.json''),
         (''BUS_MASHED_FILENAME'', ''mashed.bus''),
         (''BUS_MERGED_FILENAME'', ''merged.bus''),
         (''ECMAP_MERGED_FILENAME'', ''merged.ec''),
         (''UNFILTERED_COUNTS_DIR'', ''counts_unfiltered''),
         (''UNFILTERED_QUANT_DIR'', ''quant_unfiltered''),
         (''COUNTS_PREFIX'', ''cells_x_genes''),
         (''TCC_PREFIX'', ''cells_x_tcc''),
         (''SORT_CODE'', ''s''),
         (''CORRECT_CODE'', ''c''),
         (''UNFILTERED_CODE'', ''unfiltered''),
         (''BUS_CDNA_PREFIX'', ''spliced''),
         (''BUS_INTRON_PREFIX'', ''unspliced''),
         (''CELLRANGER_MATRIX'', ''matrix.mtx''),
         (''CELLRANGER_BARCODES'', ''barcodes.tsv''),
         (''CELLRANGER_GENES'', ''genes.tsv''),
         (''KB_INFO_FILENAME'', ''kb_info.json'')] name of
        Some v \<Rightarrow> v
      | None \<Rightarrow> name)"

definition example_scheme :: "string \<Rightarrow> string" where
  "example_scheme url =
     (let p = takeWhile (\<lambda>c. c \<noteq> CHR '':'') url in if length p < length url then p else [])"

definition example_text :: "string \<Rightarrow> string" where
  "example_text path =
     (if path = ''b.txt'' then ''AAA'' @ [CHR 0x0A] @ [CHR 0x0A] @ ''CCC'' @ [CHR 0x0A]
      else if path = ''g.txt'' then ''g1'' @ [CHR 0x0A] @ ''g2'' @ [CHR 0x0A]
      else if path = ''t2g.txt''
        then ''t1'' @ [CHR 0x09] @ ''g1'' @ [CHR 0x09] @ ''Actb'' @ [CHR 0x0A]
      else if path = ''tx.txt'' then ''t1'' @ [CHR 0x0D] @ ''zz'' @ [CHR 0x0A]
      else [])"

definition example_env :: env where
  "example_env =
     \<lparr>constants = example_constants,
      config = \<lparr>KALLISTO_PATH = Some ''kallisto'', BUSTOOLS_PATH = Some ''bustools'',
                DRY = False, VALIDATE = True\<rparr>,
      path_exists = (\<lambda>p. False),
      urlparse_scheme = example_scheme,
      whitelist_provided = (\<lambda>t. upper t = ''10XV2''),
      copy_whitelist = (\<lambda>t d. path_join d ''10xv2_whitelist.txt''),
      copy_map = (\<lambda>t d. path_join d ''map.txt''),
      stream_file = (\<lambda>url path. path),
      get_temporary_filename = (\<lambda>n d. path_join d (''tmp'' @ str_of_nat n)),
      update_filename = (\<lambda>f code. f @ ''.'' @ code),
      file_text = example_text,
      json_items = (\<lambda>p. []),
      read_t2g = (\<lambda>p. [''t1'' \<mapsto> [''g1'', ''Actb'']]),
      stats_save = (\<lambda>p. p),
      render_report = (\<lambda>args. []),
      dry_stream_batch = (\<lambda>b d. b),
      dry_write_smartseq3_capture = (\<lambda>p. p)\<rparr>"

lemmas example_env_simps = example_env_def example_constants_def example_scheme_def
  example_text_def get_kallisto_binary_path_def get_bustools_binary_path_def is_dry_def
  opt_arg_def path_join_def basename_def dirname_def truthy_str_def truthy_int_def

section \<open>Claims about the wrappers and about \<open>config.py\<close>\<close>

text \<open>
  C4. \<open>bustools_count\<close> runs one command; among its flags (the arguments after the ten
  fixed ones and before the BUS path) \<open>--genecounts\<close> occurs exactly when \<open>tcc\<close> is
  false. The dictionary it returns has \<open>mtx\<close> and \<open>barcodes\<close> under the prefix, and
  \<open>ec\<close> (and no \<open>genes\<close>) for a TCC run, \<open>genes\<close> (and no \<open>ec\<close>) otherwise.
\<close>

theorem bustools_count_genecounts_and_keys:
  "(case events (bustools_count env bus_path out_prefix t2g_path ecmap_path txnames_path
                   tcc mm cm umi_gene em n) of
      [Run c] \<Rightarrow> (Str ''--genecounts'' \<in> set (drop 10 (butlast c))) = (\<not> tcc)
    | _ \<Rightarrow> False)
   \<and> (\<exists>d. result (bustools_count env bus_path out_prefix t2g_path ecmap_path txnames_path
                    tcc mm cm umi_gene em n) = Inr d
         \<and> map_of d ''mtx'' = Some (Path (out_prefix @ ''.mtx''))
         \<and> map_of d ''barcodes'' = Some (Path (out_prefix @ ''.barcodes.txt''))
         \<and> (if tcc
            then map_of d ''ec'' = Some (Path (out_prefix @ ''.ec.txt'')) \<and> map_of d ''genes'' = None
            else map_of d ''genes'' = Some (Path (out_prefix @ ''.genes.txt''))
                 \<and> map_of d ''ec'' = None))"
  by (simp add: bustools_count_outcome events_def result_def bustools_count_command_def
      bustools_count_result_def)

text \<open>
  C8. \<open>set_kallisto_binary_path\<close> and \<open>set_bustools_binary_path\<close> raise the plain
  \<open>Exception\<close> exactly when the argument is found neither by \<open>shutil.which\<close> nor as an
  existing file, and \<open>NotExecutableException\<close> exactly when it resolves to a path that
  is not executable; they return normally exactly when it resolves to an executable
  path. On every error the configuration is unchanged, and on success only the
  binary path changes, to the absolute resolved path.
\<close>

theorem set_binary_path_spec:
  "((\<exists>msg. fst (set_kallisto_binary_path os path cfg) = Inl (Exception msg))
      = (\<not> resolvable os path))
   \<and> ((\<exists>msg. fst (set_kallisto_binary_path os path cfg) = Inl (NotExecutableException msg))
      = (resolvable os path \<and> \<not> access_x_ok os (resolved_path os path)))
   \<and> ((fst (set_kallisto_binary_path os path cfg) = Inr ())
      = (resolvable os path \<and> access_x_ok os (resolved_path os path)))
   \<and> (case fst (set_kallisto_binary_path os path cfg) of
        Inl e \<Rightarrow> snd (set_kallisto_binary_path os path cfg) = cfg
      | Inr u \<Rightarrow> snd (set_kallisto_binary_path os path cfg)
                  = cfg\<lparr>KALLISTO_PATH := Some (resolved_path os path)\<rparr>)
   \<and> (set_kallisto_binary_path os path cfg
      = (if \<not> resolvable os path
         then (Inl (Exception (''Unable to resolve path '' @ path)), cfg)
         else if \<not> access_x_ok os (resolved_path os path)
         then (Inl (NotExecutableException (resolved_path os path @ '' is not executable'')), cfg)
         else (Inr (), cfg\<lparr>KALLISTO_PATH := Some (resolved_path os path)\<rparr>)))
   \<and> ((\<exists>msg. fst (set_bustools_binary_path os path cfg) = Inl (Exception msg))
      = (\<not> resolvable os path))
   \<and> ((\<exists>msg. fst (set_bustools_binary_path os path cfg) = Inl (NotExecutableException msg))
      = (resolvable os path \<and> \<not> access_x_ok os (resolved_path os path)))
   \<and> ((fst (set_bustools_binary_path os path cfg) = Inr ())
      = (resolvable os path \<and> access_x_ok os (resolved_path os path)))
   \<and> (case fst (set_bustools_binary_path os path cfg) of
        Inl e \<Rightarrow> snd (set_bustools_binary_path os path cfg) = cfg
      | Inr u \<Rightarrow> snd (set_bustools_binary_path os path cfg)
                  = cfg\<lparr>BUSTOOLS_PATH := Some (resolved_path os path)\<rparr>)
   \<and> (set_bustools_binary_path os path cfg
      = (if \<not> resolvable os path
         then (Inl (Exception (''Unable to resolve path '' @ path)), cfg)
         else if \<not> access_x_ok os (resolved_path os path)
         then (Inl (NotExecutableException (resolved_path os path @ '' is not executable'')), cfg)
         else (Inr (), cfg\<lparr>BUSTOOLS_PATH := Some (resolved_path os path)\<rparr>)))"
  by (auto simp: set_kallisto_binary_path_def set_bustools_binary_path_def Let_def
      resolvable_def resolved_path_def)

text \<open>
  Lines end at a line feed, at a carriage return, and at the two together; on a
  transcripts file holding \<open>t1\<close>, a carriage return, \<open>zz\<close> and a line feed, two lines
  are read and two are written.
\<close>

lemma file_lines_carriage_return:
  "file_lines (''t1'' @ [CHR 0x0D] @ ''zz'' @ [CHR 0x0A]) = [''t1'' @ [CHR 0x0A], ''zz'' @ [CHR 0x0A]]"
  "file_lines (''t1'' @ [CHR 0x0D, CHR 0x0A] @ ''zz'') = [''t1'' @ [CHR 0x0A], ''zz'']"
  by (simp_all add: file_lines_def universal_newlines_def)

lemma convert_transcripts_to_genes_carriage_return:
  "events (convert_transcripts_to_genes example_env ''tx.txt'' ''t2g.txt'' ''genes.txt'' 0)
     = [Ext ''read_t2g'' [Str ''t2g.txt''], Ext ''open_as_text'' [Str ''tx.txt'', Str ''r''],
        Write ''genes.txt'' [''g1'' @ [CHR 0x0A], ''zz'' @ [CHR 0x0A]]]"
  by (simp add: convert_transcripts_to_genes_outcome events_def nonblank_lines_def file_lines_def
      universal_newlines_def isspace_def is_space_char_def strip_def gene_line_def Let_def
      example_env_simps)

text \<open>
  C9. \<open>convert_transcripts_to_genes\<close> writes to \<open>genes_path\<close>, once, one chunk for
  each line of the transcripts file that is not blank, in the order of the file: the
  first attribute of the mapping when the stripped line maps to a non-empty tuple,
  the stripped line itself otherwise, each followed by a newline. It returns
  \<open>genes_path\<close>.
\<close>

theorem convert_transcripts_to_genes_lines:
  "filter (\<lambda>e. case e of Write p c \<Rightarrow> True | _ \<Rightarrow> False)
      (events (convert_transcripts_to_genes env txnames_path t2g_path genes_path n))
     = [Write genes_path
         (map (\<lambda>line. (case read_t2g env t2g_path (strip line) of
                          Some (a # attributes) \<Rightarrow> a
                        | _ \<Rightarrow> strip line) @ [CHR 0x0A])
            (filter (\<lambda>line. \<not> isspace line) (file_lines (file_text env txnames_path))))]
   \<and> result (convert_transcripts_to_genes env txnames_path t2g_path genes_path n) = Inr genes_path
   \<and> commands (convert_transcripts_to_genes env txnames_path t2g_path genes_path n) = []"
proof -
  have line: "gene_line t2g line
      = (case t2g (strip line) of Some (a # attributes) \<Rightarrow> a | _ \<Rightarrow> strip line) @ [CHR 0x0A]"
    for t2g line
    by (simp add: gene_line_def Let_def split: option.splits list.splits)
  note out = convert_transcripts_to_genes_outcome [of env txnames_path t2g_path genes_path n]
  show ?thesis
    by (simp add: out events_def result_def commands_def nonblank_lines_def line)
qed

text \<open>
  C5, as stated, fails: \<open>matrix_to_cellranger\<close> runs no external command at all and
  rewrites the barcodes and genes files itself, line by line.
\<close>

theorem matrix_to_cellranger_no_command:
  "commands (matrix_to_cellranger example_env ''m.mtx'' ''b.txt'' ''g.txt'' ''t2g.txt'' ''cr'' 0) = []
   \<and> Write ''cr/barcodes.tsv'' [''AAA-1'' @ [CHR 0x0A], ''CCC-1'' @ [CHR 0x0A]]
       \<in> set (events (matrix_to_cellranger example_env ''m.mtx'' ''b.txt'' ''g.txt'' ''t2g.txt'' ''cr'' 0))
   \<and> Write ''cr/genes.tsv'' [''g1'' @ [CHR 0x09] @ ''Actb'' @ [CHR 0x0A],
                              ''g2'' @ [CHR 0x09] @ ''g2'' @ [CHR 0x0A]]
       \<in> set (events (matrix_to_cellranger example_env ''m.mtx'' ''b.txt'' ''g.txt'' ''t2g.txt'' ''cr'' 0))"
  by (simp add: matrix_to_cellranger_def Let_def act_simps commands_def events_def
      nonblank_lines_def file_lines_def universal_newlines_def isspace_def is_space_char_def
      strip_def gene_to_name_of_def split_def example_env_simps)

lemma matrix_to_cellranger_outcome:
  "matrix_to_cellranger env matrix_path barcodes_path genes_path t2g_path out_dir n =
     (Inr [(''mtx'', Path (path_join out_dir (constants env ''CELLRANGER_MATRIX''))),
           (''barcodes'', Path (path_join out_dir (constants env ''CELLRANGER_BARCODES''))),
           (''genes'', Path (path_join out_dir (constants env ''CELLRANGER_GENES'')))],
      [Ext ''make_directory'' [Str out_dir],
       Ext ''scipy.io.mmread'' [Str matrix_path],
       Ext ''scipy.io.mmwrite''
         [Str (path_join out_dir (constants env ''CELLRANGER_MATRIX'')), Str ''mtx.T''],
       Ext ''open'' [Str barcodes_path, Str ''r''],
       Write (path_join out_dir (constants env ''CELLRANGER_BARCODES''))
         (map (\<lambda>line. strip line @ ''-1'' @ [CHR 0x0A]) (nonblank_lines env barcodes_path)),
       Ext ''open'' [Str t2g_path, Str ''r''],
       Ext ''open'' [Str genes_path, Str ''r''],
       Write (path_join out_dir (constants env ''CELLRANGER_GENES''))
         (map (\<lambda>line. strip line @ [CHR 0x09]
                   @ (case gene_to_name_of (nonblank_lines env t2g_path) (strip line) of
                        None \<Rightarrow> strip line
                      | Some g \<Rightarrow> g)
                   @ [CHR 0x0A])
            (nonblank_lines env genes_path))],
      n)"
  by (simp add: matrix_to_cellranger_def Let_def act_simps)

text \<open>
  C5, amended. The \<open>validate_files\<close> decorator, whose code is not in the sources,
  left aside: the body of each wrapper of one external subcommand runs exactly one
  command, which is the configured \<open>kallisto\<close> or \<open>bustools\<close> binary, the subcommand
  and the flags and paths given by the arguments, and returns a dictionary of output
  paths computed from the arguments, nothing else. \<open>bustools_mash\<close> runs one command
  too, and unless the run is dry it then loads the run information of every input
  directory and writes the combined one. \<open>matrix_to_cellranger\<close> and
  \<open>convert_transcripts_to_genes\<close> run no command for any input: they read the lines
  of their input files and write the converted lines themselves.
\<close>

theorem wrappers_run_one_command:
  "kallisto_pseudo env batch_path index_path out_dir threads n =
     (Inr [(''mtx'', Path (path_join out_dir (constants env ''ABUNDANCE_FILENAME''))),
           (''ecmap'', Path (path_join out_dir (constants env ''ECMAP_FILENAME''))),
           (''cells'', Path (path_join out_dir (constants env ''CELLS_FILENAME''))),
           (''txnames'', Path (path_join out_dir (constants env ''TXNAMES_FILENAME''))),
           (''info'', Path (path_join out_dir (constants env ''KALLISTO_INFO_FILENAME'')))],
      [Run [opt_arg (get_kallisto_binary_path env), Str ''pseudo'', Str ''--quant'',
            Str ''-i'', Str index_path, Str ''-o'', Str out_dir, Str ''-b'', Str batch_path,
            Str ''-t'', Num threads]], n)
   \<and> kallisto_bus env fastqs index_path technology out_dir threads nflag kflag paired strand n =
     (Inr ([(''bus'', Path (path_join out_dir (constants env ''BUS_FILENAME''))),
            (''ecmap'', Path (path_join out_dir (constants env ''ECMAP_FILENAME''))),
            (''txnames'', Path (path_join out_dir (constants env ''TXNAMES_FILENAME''))),
            (''info'', Path (path_join out_dir (constants env ''KALLISTO_INFO_FILENAME'')))]
           @ (if paired
              then [(''flens'', Path (path_join out_dir (constants env ''FLENS_FILENAME'')))]
              else [])
           @ (if upper technology \<in> {''BULK'', ''SMARTSEQ3''}
              then [(''saved_index'',
                     Path (path_join out_dir (constants env ''SAVED_INDEX_FILENAME'')))]
              else [])),
      [Run ([opt_arg (get_kallisto_binary_path env), Str ''bus'', Str ''-i'', Str index_path,
             Str ''-o'', Str out_dir]
            @ (if \<not> is_batch_of fastqs then [Str ''-x'', Str technology] else [])
            @ [Str ''-t'', Num threads]
            @ (if nflag then [Str ''--num''] else [])
            @ (if kflag then [Str ''--kmer''] else [])
            @ (if paired then [Str ''--paired''] else [])
            @ (if strand = Some ''unstranded'' then [Str ''--unstranded'']
               else if strand = Some ''forward'' then [Str ''--fr-stranded'']
               else if strand = Some ''reverse'' then [Str ''--rf-stranded'']
               else [])
            @ (case fastqs of Batch b \<Rightarrow> [Str ''--batch'', Str b] | Fastqs fs \<Rightarrow> map Str fs))],
      n)
   \<and> kallisto_quant_tcc env mtx_path saved_index_path ecmap_path t2g_path out_dir flens_path
       l s threads n =
     (Inr [(''genes'', Path (path_join out_dir (constants env ''GENES_FILENAME''))),
           (''gene_mtx'', Path (path_join out_dir (constants env ''ABUNDANCE_GENE_FILENAME''))),
           (''gene_tpm_mtx'', Path (path_join out_dir (constants env ''ABUNDANCE_GENE_TPM_FILENAME''))),
           (''mtx'', Path (path_join out_dir (constants env ''ABUNDANCE_FILENAME''))),
           (''tpm_mtx'', Path (path_join out_dir (constants env ''ABUNDANCE_TPM_FILENAME''))),
           (''fld'', Path (path_join out_dir (constants env ''FLD_FILENAME''))),
           (''txnames'', Path (path_join out_dir (constants env ''TXNAMES_FILENAME'')))],
      [Run ([opt_arg (get_kallisto_binary_path env), Str ''quant-tcc'', Str ''-o'', Str out_dir,
             Str ''-i'', Str saved_index_path, Str ''-e'', Str ecmap_path, Str ''-g'', Str t2g_path,
             Str ''-t'', Num threads]
            @ (if truthy_str flens_path then [Str ''-f'', opt_arg flens_path] else [])
            @ (if truthy_int l then [Str ''-l'', Num (the l)] else [])
            @ (if truthy_int s then [Str ''-s'', Num (the s)] else [])
            @ [Str mtx_path])], n)
   \<and> bustools_merge env bus_path out_dir ecmap_path txnames_path n =
     (Inr [(''bus'', Path (path_join out_dir (constants env ''BUS_MERGED_FILENAME''))),
           (''ecmap'', Path (path_join out_dir (constants env ''ECMAP_MERGED_FILENAME'')))],
      [Run [opt_arg (get_bustools_binary_path env), Str ''merge'', Str ''-o'', Str out_dir,
            Str ''-e'', Str ecmap_path, Str ''-t'', Str txnames_path, Str bus_path]], n)
   \<and> bustools_project env bus_path out_path map_path ecmap_path txnames_path n =
     (Inr [(''bus'', Path out_path)],
      [Run [opt_arg (get_bustools_binary_path env), Str ''project'', Str ''-o'', Str out_path,
            Str ''-m'', Str map_path, Str ''-e'', Str ecmap_path, Str ''-t'', Str txnames_path,
            Str ''--barcode'', Str bus_path]], n)
   \<and> bustools_sort env bus_path out_path temp_dir threads memory flags n =
     (Inr [(''bus'', Path out_path)],
      [Run ([opt_arg (get_bustools_binary_path env), Str ''sort'', Str ''-o'', Str out_path,
             Str ''-T'', Str temp_dir, Str ''-t'', Num threads, Str ''-m'', Str memory]
            @ (if flags then [Str ''--flags''] else []) @ [Str bus_path])], n)
   \<and> bustools_inspect env bus_path out_path whitelist_opt ecmap_opt n =
     (Inr [(''inspect'', Path out_path)],
      [Run ([opt_arg (get_bustools_binary_path env), Str ''inspect'', Str ''-o'', Str out_path]
            @ (if truthy_str whitelist_opt then [Str ''-w'', opt_arg whitelist_opt] else [])
            @ (if truthy_str ecmap_opt then [Str ''-e'', opt_arg ecmap_opt] else [])
            @ [Str bus_path])], n)
   \<and> bustools_correct env bus_path out_path whitelist_opt n =
     (Inr [(''bus'', Path out_path)],
      [Run [opt_arg (get_bustools_binary_path env), Str ''correct'', Str ''-o'', Str out_path,
            Str ''-w'', opt_arg whitelist_opt, Str bus_path]], n)
   \<and> bustools_count env bus_path out_prefix t2g_path ecmap_path txnames_path tcc mm cm
       umi_gene em n =
     (Inr (if tcc
           then [(''mtx'', Path (out_prefix @ ''.mtx'')), (''ec'', Path (out_prefix @ ''.ec.txt'')),
                 (''barcodes'', Path (out_prefix @ ''.barcodes.txt''))]
           else [(''mtx'', Path (out_prefix @ ''.mtx'')),
                 (''genes'', Path (out_prefix @ ''.genes.txt'')),
                 (''barcodes'', Path (out_prefix @ ''.barcodes.txt''))]),
      [Run ([opt_arg (get_bustools_binary_path env), Str ''count'', Str ''-o'', Str out_prefix,
             Str ''-g'', Str t2g_path, Str ''-e'', Str ecmap_path, Str ''-t'', Str txnames_path]
            @ (if \<not> tcc then [Str ''--genecounts''] else [])
            @ (if mm then [Str ''--multimapping''] else [])
            @ (if cm then [Str ''--cm''] else [])
            @ (if umi_gene then [Str ''--umi-gene''] else [])
            @ (if em then [Str ''--em''] else [])
            @ [Str bus_path])], n)
   \<and> bustools_capture env bus_path out_path capture_path ecmap_opt txnames_opt capture_type
       complement n =
     (Inr [(''bus'', Path out_path)],
      [Run ([opt_arg (get_bustools_binary_path env), Str ''capture'', Str ''-o'', Str out_path,
             Str ''-c'', Str capture_path]
            @ (if truthy_str ecmap_opt then [Str ''-e'', opt_arg ecmap_opt] else [])
            @ (if truthy_str txnames_opt then [Str ''-t'', opt_arg txnames_opt] else [])
            @ (if complement then [Str ''--complement''] else [])
            @ [Str (''--'' @ capture_type), Str bus_path])], n)
   \<and> bustools_whitelist env bus_path out_path threshold n =
     (Inr [(''whitelist'', Path out_path)],
      [Run ([opt_arg (get_bustools_binary_path env), Str ''whitelist'', Str ''-o'', Str out_path]
            @ (if truthy_int threshold then [Str ''--threshold'', Num (the threshold)] else [])
            @ [Str bus_path])], n)
   \<and> bustools_mash env out_dirs out_dir n =
     (Inr [(''bus'', Path (path_join out_dir (constants env ''BUS_MASHED_FILENAME''))),
           (''ecmap'', Path (path_join out_dir (constants env ''ECMAP_FILENAME''))),
           (''txnames'', Path (path_join out_dir (constants env ''TXNAMES_FILENAME''))),
           (''info'', if is_dry env then NoneV
                      else Path (path_join out_dir (constants env ''KALLISTO_INFO_FILENAME'')))],
      Run ([opt_arg (get_bustools_binary_path env), Str ''mash'', Str ''-o'', Str out_dir]
           @ map Str out_dirs)
      # (if is_dry env then []
         else map (\<lambda>o_dir. Ext ''json.load''
                     [Str (path_join o_dir (constants env ''KALLISTO_INFO_FILENAME''))]) out_dirs
              @ [JsonDump (path_join out_dir (constants env ''KALLISTO_INFO_FILENAME''))
                   (combine_run_info env out_dirs)]), n)
   \<and> commands (bustools_mash env out_dirs out_dir n)
       = [[opt_arg (get_bustools_binary_path env), Str ''mash'', Str ''-o'', Str out_dir]
          @ map Str out_dirs]
   \<and> commands (matrix_to_cellranger env matrix_path barcodes_path genes_path t2g_path cr_dir n) = []
   \<and> [e \<leftarrow> events (matrix_to_cellranger env matrix_path barcodes_path genes_path t2g_path
                           cr_dir n). case e of Write p c \<Rightarrow> True | _ \<Rightarrow> False]
       = [Write (path_join cr_dir (constants env ''CELLRANGER_BARCODES''))
            (map (\<lambda>line. strip line @ ''-1'' @ [CHR 0x0A]) (nonblank_lines env barcodes_path)),
          Write (path_join cr_dir (constants env ''CELLRANGER_GENES''))
            (map (\<lambda>line. strip line @ [CHR 0x09]
                      @ (case gene_to_name_of (nonblank_lines env t2g_path) (strip line) of
                           None \<Rightarrow> strip line
                         | Some g \<Rightarrow> g)
                      @ [CHR 0x0A])
               (nonblank_lines env genes_path))]
   \<and> commands (convert_transcripts_to_genes env txnames_path t2g_path genes_path n) = []
   \<and> [e \<leftarrow> events (convert_transcripts_to_genes env txnames_path t2g_path genes_path n).
         case e of Write p c \<Rightarrow> True | _ \<Rightarrow> False]
       = [Write genes_path
            (map (gene_line (read_t2g env t2g_path)) (nonblank_lines env txnames_path))]"
proof -
  have mash: "commands (bustools_mash env out_dirs out_dir n)
       = [[opt_arg (get_bustools_binary_path env), Str ''mash'', Str ''-o'', Str out_dir]
          @ map Str out_dirs]"
    by (simp add: bustools_mash_outcome commands_def events_def comp_def)
  have cr: "commands (matrix_to_cellranger env matrix_path barcodes_path genes_path t2g_path
      cr_dir n) = []"
    by (simp add: matrix_to_cellranger_outcome commands_def events_def)
  have crw: "[e \<leftarrow> events (matrix_to_cellranger env matrix_path barcodes_path genes_path t2g_path
                           cr_dir n). case e of Write p c \<Rightarrow> True | _ \<Rightarrow> False]
       = [Write (path_join cr_dir (constants env ''CELLRANGER_BARCODES''))
            (map (\<lambda>line. strip line @ ''-1'' @ [CHR 0x0A]) (nonblank_lines env barcodes_path)),
          Write (path_join cr_dir (constants env ''CELLRANGER_GENES''))
            (map (\<lambda>line. strip line @ [CHR 0x09]
                      @ (case gene_to_name_of (nonblank_lines env t2g_path) (strip line) of
                           None \<Rightarrow> strip line
                         | Some g \<Rightarrow> g)
                      @ [CHR 0x0A])
               (nonblank_lines env genes_path))]"
    by (simp add: matrix_to_cellranger_outcome events_def)
  have tg: "commands (convert_transcripts_to_genes env txnames_path t2g_path genes_path n) = []"
    by (simp add: convert_transcripts_to_genes_outcome commands_def events_def)
  have tgw: "[e \<leftarrow> events (convert_transcripts_to_genes env txnames_path t2g_path genes_path n).
         case e of Write p c \<Rightarrow> True | _ \<Rightarrow> False]
       = [Write genes_path
            (map (gene_line (read_t2g env t2g_path)) (nonblank_lines env txnames_path))]"
    by (simp add: convert_transcripts_to_genes_outcome events_def)
  show ?thesis
    by (intro conjI kallisto_pseudo_outcome
        kallisto_bus_outcome [unfolded kallisto_bus_command_def kallisto_bus_result_def]
        kallisto_quant_tcc_outcome bustools_merge_outcome bustools_project_outcome
        bustools_sort_outcome bustools_inspect_outcome bustools_correct_outcome
        bustools_count_outcome [unfolded bustools_count_command_def bustools_count_result_def]
        bustools_capture_outcome bustools_whitelist_outcome bustools_mash_outcome
        mash cr crw tg tgw)
qed

lemma count_smartseq_multiple_indices:
  "length (index_list ip) > 1 \<Longrightarrow>
   count_smartseq env ip t2g_path technology out_dir fastq_pairs cell_ids temp_dir threads memory
     overwrite loom h5ad n
    = (Inl (Exception (''Technology '' @ technology @ '' does not support multiple indices.'')),
       [Ext ''STATS.start'' []], n)"
  by (simp add: count_smartseq_def act_simps Let_def)

lemma count_smartseq_remote:
  "\<exists>pair\<in>set fastq_pairs. \<exists>fastq\<in>set pair.
      urlparse_scheme env fastq \<in> {''http'', ''https'', ''ftp'', ''ftps''} \<Longrightarrow>
   count_smartseq env ip t2g_path technology out_dir fastq_pairs cell_ids temp_dir threads memory
     overwrite loom h5ad n
    = (Inl (Exception (''Technology '' @ technology @
          (if length (index_list ip) > 1 then '' does not support multiple indices.''
           else '' does not support FASTQ streaming.''))),
       [Ext ''STATS.start'' []], n)"
  by (auto simp add: count_smartseq_def act_simps Let_def list_ex_iff is_remote_def)

lemma count_smartseq_proceeds:
  "length (index_list ip) \<le> 1 \<Longrightarrow>
   \<forall>pair\<in>set fastq_pairs. \<forall>fastq\<in>set pair.
      urlparse_scheme env fastq \<notin> {''http'', ''https'', ''ftp'', ''ftps''} \<Longrightarrow>
   (\<exists>rest. events (count_smartseq env ip t2g_path technology out_dir fastq_pairs cell_ids temp_dir
                     threads memory overwrite loom h5ad n)
      = Ext ''STATS.start'' [] # Ext ''make_directory'' [Str out_dir] # rest)
   \<and> (\<forall>msg. result (count_smartseq env ip t2g_path technology out_dir fastq_pairs cell_ids temp_dir
                      threads memory overwrite loom h5ad n) \<noteq> Inl (Exception msg))"
  apply (simp add: count_smartseq_def act_simps Let_def list_ex_iff is_remote_def not_less
      events_pre result_pre write_smartseq_batch_def getpath_def getitem_def
      wrapper_binds converter_binds dict_update_def split: list.splits)
  apply (auto simp: events_def result_def act_simps wrapper_binds converter_binds getpath_def
      getitem_def dict_update_def split: list.splits if_splits)
  done

text \<open>
  C10. \<open>count_smartseq\<close> stops with an \<open>Exception\<close> right after \<open>STATS.start()\<close>,
  before anything is run or written, when more than one index is given, and likewise
  when some FASTQ of some pair has the scheme http, https, ftp or ftps. With at most
  one index and no such FASTQ it goes on to create the output directory, and whatever
  happens later it does not raise a plain \<open>Exception\<close>.
\<close>

theorem count_smartseq_checks:
  "(length (index_list ip) > 1 \<longrightarrow>
      count_smartseq env ip t2g_path technology out_dir fastq_pairs cell_ids temp_dir threads memory
        overwrite loom h5ad n
      = (Inl (Exception (''Technology '' @ technology @ '' does not support multiple indices.'')),
         [Ext ''STATS.start'' []], n))
   \<and> ((\<exists>pair\<in>set fastq_pairs. \<exists>fastq\<in>set pair.
          urlparse_scheme env fastq \<in> {''http'', ''https'', ''ftp'', ''ftps''}) \<longrightarrow>
      count_smartseq env ip t2g_path technology out_dir fastq_pairs cell_ids temp_dir threads memory
        overwrite loom h5ad n
      = (Inl (Exception (''Technology '' @ technology @
            (if length (index_list ip) > 1 then '' does not support multiple indices.''
             else '' does not support FASTQ streaming.''))),
         [Ext ''STATS.start'' []], n))
   \<and> (length (index_list ip) \<le> 1 \<and>
      (\<forall>pair\<in>set fastq_pairs. \<forall>fastq\<in>set pair.
          urlparse_scheme env fastq \<notin> {''http'', ''https'', ''ftp'', ''ftps''}) \<longrightarrow>
      (\<exists>rest. events (count_smartseq env ip t2g_path technology out_dir fastq_pairs cell_ids temp_dir
                        threads memory overwrite loom h5ad n)
         = Ext ''STATS.start'' [] # Ext ''make_directory'' [Str out_dir] # rest)
      \<and> (\<forall>msg. result (count_smartseq env ip t2g_path technology out_dir fastq_pairs cell_ids temp_dir
                         threads memory overwrite loom h5ad n) \<noteq> Inl (Exception msg)))"
  using count_smartseq_multiple_indices [of ip env t2g_path technology out_dir fastq_pairs cell_ids
      temp_dir threads memory overwrite loom h5ad n]
    count_smartseq_remote [of fastq_pairs env ip t2g_path technology out_dir cell_ids
      temp_dir threads memory overwrite loom h5ad n]
    count_smartseq_proceeds [of ip fastq_pairs env t2g_path technology out_dir cell_ids
      temp_dir threads memory overwrite loom h5ad n]
  by blast

theorem count_smartseq_checks_witness:
  "count_smartseq example_env (Multi [''a.idx'', ''b.idx'']) ''t2g.txt'' ''SMARTSEQ'' ''out''
      [[''r1.fastq'', ''r2.fastq'']] None ''tmp'' 8 ''4G'' False False False 0
     = (Inl (Exception ''Technology SMARTSEQ does not support multiple indices.''),
        [Ext ''STATS.start'' []], 0)
   \<and> count_smartseq example_env (Single ''a.idx'') ''t2g.txt'' ''SMARTSEQ'' ''out''
      [[''r1.fastq'', ''http://host/r2.fastq'']] None ''tmp'' 8 ''4G'' False False False 0
     = (Inl (Exception ''Technology SMARTSEQ does not support FASTQ streaming.''),
        [Ext ''STATS.start'' []], 0)
   \<and> (\<exists>rest. events (count_smartseq example_env (Single ''a.idx'') ''t2g.txt'' ''SMARTSEQ'' ''out''
                       [[''r1.fastq'', ''r2.fastq'']] None ''tmp'' 8 ''4G'' False False False 0)
         = Ext ''STATS.start'' [] # Ext ''make_directory'' [Str ''out''] # rest)"
  using
    count_smartseq_checks [where env = example_env and ip = "Multi [''a.idx'', ''b.idx'']"
      and ?t2g_path = "''t2g.txt''" and technology = "''SMARTSEQ''" and out_dir = "''out''"
      and fastq_pairs = "[[''r1.fastq'', ''r2.fastq'']]" and cell_ids = None and temp_dir = "''tmp''"
      and threads = 8 and memory = "''4G''" and overwrite = False and loom = False and h5ad = False
      and n = 0]
    count_smartseq_checks [where env = example_env and ip = "Single ''a.idx''"
      and ?t2g_path = "''t2g.txt''" and technology = "''SMARTSEQ''" and out_dir = "''out''"
      and fastq_pairs = "[[''r1.fastq'', ''http://host/r2.fastq'']]" and cell_ids = None
      and temp_dir = "''tmp''" and threads = 8 and memory = "''4G''" and overwrite = False
      and loom = False and h5ad = False and n = 0]
    count_smartseq_checks [where env = example_env and ip = "Single ''a.idx''"
      and ?t2g_path = "''t2g.txt''" and technology = "''SMARTSEQ''" and out_dir = "''out''"
      and fastq_pairs = "[[''r1.fastq'', ''r2.fastq'']]" and cell_ids = None and temp_dir = "''tmp''"
      and threads = 8 and memory = "''4G''" and overwrite = False and loom = False and h5ad = False
      and n = 0]
  by (simp add: index_list_def example_env_def example_scheme_def)

text \<open>
  C2. \<open>kallisto_bus_split\<close> runs, for every index in turn, \<open>kallisto bus\<close> with
  \<open>--num\<close> and \<open>--kmer\<close> into the part directory \<open>bus_part<i>\<close> of the temporary
  directory, sorts the part's BUS file by flag into a temporary file and moves it back
  over the part's BUS file; the part directories are pairwise different. It then
  mashes the part directories into the output directory, sorts the mashed file by
  flag and moves the result over it, merges, moves the merged BUS file and the merged
  ecmap to the BUS and ecmap paths of the output directory, and returns these two
  with the transcript names and run info paths of the output directory.
\<close>

theorem kallisto_bus_split_steps:
  "kallisto_bus_split env fastqs index_paths technology out_dir temp_dir threads memory paired strand n
     = (Inr [(''bus'', Path (path_join out_dir (constants env ''BUS_FILENAME''))),
             (''ecmap'', Path (path_join out_dir (constants env ''ECMAP_FILENAME''))),
             (''txnames'', Path (path_join out_dir (constants env ''TXNAMES_FILENAME''))),
             (''info'', Path (path_join out_dir (constants env ''KALLISTO_INFO_FILENAME'')))],
        split_part_events env n 0 index_paths (fastq_items fastqs) technology temp_dir threads memory
          paired strand
        @ Run ([opt_arg (get_bustools_binary_path env), Str ''mash'', Str ''-o'', Str out_dir]
               @ map (\<lambda>j. Str (path_join temp_dir (''bus_part'' @ str_of_nat j)))
                   [0..<length index_paths])
        # (if is_dry env then []
           else map (\<lambda>j. Ext ''json.load''
                       [Str (path_join (path_join temp_dir (''bus_part'' @ str_of_nat j))
                               (constants env ''KALLISTO_INFO_FILENAME''))])
                  [0..<length index_paths]
                @ [JsonDump (path_join out_dir (constants env ''KALLISTO_INFO_FILENAME''))
                     (combine_run_info env
                        (map (\<lambda>j. path_join temp_dir (''bus_part'' @ str_of_nat j))
                           [0..<length index_paths]))])
        @ [Ext ''get_temporary_filename'' [Str temp_dir],
           Run [opt_arg (get_bustools_binary_path env), Str ''sort'', Str ''-o'',
                Str (get_temporary_filename env (n + length index_paths) temp_dir),
                Str ''-T'', Str temp_dir, Str ''-t'', Num threads, Str ''-m'', Str memory,
                Str ''--flags'', Str (path_join out_dir (constants env ''BUS_MASHED_FILENAME''))],
           Ext ''move_file'' [Str (get_temporary_filename env (n + length index_paths) temp_dir),
                Str (path_join out_dir (constants env ''BUS_MASHED_FILENAME''))],
           Run [opt_arg (get_bustools_binary_path env), Str ''merge'', Str ''-o'', Str out_dir,
                Str ''-e'', Str (path_join out_dir (constants env ''ECMAP_FILENAME'')),
                Str ''-t'', Str (path_join out_dir (constants env ''TXNAMES_FILENAME'')),
                Str (path_join out_dir (constants env ''BUS_MASHED_FILENAME''))],
           Ext ''move_file'' [Str (path_join out_dir (constants env ''BUS_MERGED_FILENAME'')),
                Str (path_join out_dir (constants env ''BUS_FILENAME''))],
           Ext ''move_file'' [Str (path_join out_dir (constants env ''ECMAP_MERGED_FILENAME'')),
                Str (path_join out_dir (constants env ''ECMAP_FILENAME''))]],
        Suc (n + length index_paths))
   \<and> distinct (map (\<lambda>j. path_join temp_dir (''bus_part'' @ str_of_nat j)) [0..<length index_paths])
   \<and> Str ''--num'' \<in> set (kallisto_bus_command env fqs index_path technology part_dir threads
                            True True paired strand)
   \<and> Str ''--kmer'' \<in> set (kallisto_bus_command env fqs index_path technology part_dir threads
                             True True paired strand)"
  using part_dirs_distinct [of temp_dir "length index_paths"]
  by (simp add: kallisto_bus_split_outcome bustools_mash_outcome events_def
      kallisto_bus_command_def comp_def)

section \<open>The order of the stages\<close>

text \<open>
  The subcommand of a \<open>Run\<close> event is its second word. \<open>follows [P1, ..., Pk] Q t\<close>
  says that in the trace \<open>t\<close> every event satisfying \<open>Q\<close> comes after events
  satisfying \<open>P1\<close>, ..., \<open>Pk\<close>, met in this order; it holds of every prefix of a
  trace it holds of, so also when a run is cut short.
\<close>

definition cmd_name :: "event \<Rightarrow> string option" where
  "cmd_name e = (case e of Run (b # Str c # rest) \<Rightarrow> Some c | _ \<Rightarrow> None)"

definition is_cmd :: "string \<Rightarrow> event \<Rightarrow> bool" where
  "is_cmd name e = (cmd_name e = Some name)"


fun follows :: "(event \<Rightarrow> bool) list \<Rightarrow> (event \<Rightarrow> bool) \<Rightarrow> event list \<Rightarrow> bool" where
  "follows [] Q t = True"
| "follows (P # Ps) Q [] = True"
| "follows (P # Ps) Q (e # es) =
     (if Q e then False else if P e then follows Ps Q es else follows (P # Ps) Q es)"

definition free_of :: "(event \<Rightarrow> bool) \<Rightarrow> event list \<Rightarrow> bool" where
  "free_of Q t = list_all (\<lambda>e. \<not> Q e) t"






lemma follows_take: "follows Ps Q t \<Longrightarrow> follows Ps Q (take k t)"
proof (induction Ps Q t arbitrary: k rule: follows.induct)
  case (1 Q t)
  then show ?case by simp
next
  case (2 P Ps Q)
  then show ?case by simp
next
  case (3 P Ps Q e es)
  then show ?case by (cases k) (auto split: if_splits)
qed

lemma free_of_append: "free_of Q (xs @ ys) = (free_of Q xs \<and> free_of Q ys)"
  by (simp add: free_of_def)

lemma free_of_Nil: "free_of Q []"
  by (simp add: free_of_def)

lemma free_of_Cons: "free_of Q (x # xs) = (\<not> Q x \<and> free_of Q xs)"
  by (simp add: free_of_def)

subsection \<open>The first stage: \<open>kallisto bus\<close>\<close>

definition allowed :: "string set \<Rightarrow> event \<Rightarrow> bool" where
  "allowed S e = (case e of Run c \<Rightarrow> (\<exists>x\<in>S. cmd_name e = Some x) | _ \<Rightarrow> True)"

definition base_keys :: "env \<Rightarrow> string \<Rightarrow> pydict \<Rightarrow> bool" where
  "base_keys env out_dir d =
     (map_of d ''bus'' = Some (Path (path_join out_dir (constants env ''BUS_FILENAME'')))
      \<and> map_of d ''ecmap'' = Some (Path (path_join out_dir (constants env ''ECMAP_FILENAME'')))
      \<and> map_of d ''txnames'' = Some (Path (path_join out_dir (constants env ''TXNAMES_FILENAME'')))
      \<and> map_of d ''info'' = Some (Path (path_join out_dir (constants env ''KALLISTO_INFO_FILENAME''))))"

lemma allowed_Ext [simp]: "allowed S (Ext a b)"
  and allowed_Write [simp]: "allowed S (Write p c)"
  and allowed_JsonDump [simp]: "allowed S (JsonDump p j)"
  by (simp_all add: allowed_def)

lemma allowed_Run [simp]: "allowed S (Run (b # Str c # rest)) = (c \<in> S)"
  by (simp add: allowed_def cmd_name_def)

lemma map_Ext_allowed: "list_all (allowed S) (map (\<lambda>x. Ext a (g x)) xs)"
  by (induction xs) simp_all

lemma stream_events_allowed: "list_all (allowed S) (stream_events env temp_dir fastqs)"
  by (induction fastqs) (simp_all add: stream_events_def)

lemma split_part_events_allowed:
  "''bus'' \<in> S \<Longrightarrow> ''sort'' \<in> S \<Longrightarrow>
   list_all (allowed S)
     (split_part_events env n i index_paths fastqs technology temp_dir threads memory paired strand)"
  by (induction index_paths arbitrary: n i fastqs)
     (simp_all add: Let_def stream_events_allowed kallisto_bus_command_def)

lemma stream_batch_lines_outcome:
  "\<exists>chunks evs. stream_batch_lines env lines n = (Inr chunks, evs, n) \<and> list_all (allowed S) evs"
proof (induction lines)
  case Nil
  then show ?case by (simp add: act_simps)
next
  case (Cons line rest)
  then obtain chunks evs where
    r: "stream_batch_lines env rest n = (Inr chunks, evs, n)" and a: "list_all (allowed S) evs"
    by blast
  show ?case
    by (simp add: Let_def act_simps bind_known [OF stream_fastqs_outcome] bind_known [of "stream_batch_lines env rest" n, OF r] r a
        stream_events_allowed)
qed

lemma stream_batch_outcome:
  "\<exists>p evs n'. stream_batch env b temp_dir n = (Inr p, evs, n') \<and> list_all (allowed S) evs"
proof (cases "is_dry env")
  case True
  then show ?thesis by (simp add: stream_batch_def act_simps)
next
  case False
  obtain chunks evs where
    r: "stream_batch_lines env (file_lines (file_text env b)) (Suc n) = (Inr chunks, evs, Suc n)"
    and a: "list_all (allowed S) evs"
    using stream_batch_lines_outcome by blast
  from False show ?thesis
    by (simp add: stream_batch_def act_simps fresh_temporary_filename_def bind_lam_fresh
        bind_known [of "stream_batch_lines env (file_lines (file_text env b))" "Suc n", OF r] a)
qed


lemma bus_stage_cases:
  assumes d0: "base_keys env out_dir d0"
  shows "\<exists>r evs n'. bus_stage env d0 batch_aware fastqs index_paths technology out_dir temp_dir threads
             memory overwrite paired strand n = (r, evs, n')
           \<and> list_all (allowed {''bus'', ''sort'', ''mash'', ''merge''}) evs
           \<and> ((r = Inl IndexError \<and> index_paths = [])
                \<or> (\<exists>d. r = Inr d \<and> base_keys env out_dir d))"
proof (cases "any_missing env d0 \<or> overwrite")
  case False
  with d0 show ?thesis by (simp add: bus_stage_def act_simps)
next
  case need: True
  show ?thesis
  proof (cases "length index_paths > 1")
    case True
    with need show ?thesis
      by (simp add: bus_stage_def kallisto_bus_split_outcome split_part_events_allowed
          bustools_mash_outcome events_def base_keys_def list.pred_map comp_def list.pred_True)
  next
    case False
    let ?S = "{''bus'', ''sort'', ''mash'', ''merge''}"
    define m where "m =
        (case fastqs of
            Batch b \<Rightarrow>
              if batch_aware
              then bind (stream_batch env b temp_dir) (\<lambda>new_batch. ret (Batch new_batch))
              else bind (stream_fastqs env (fastq_items fastqs) temp_dir)
                     (\<lambda>streamed. ret (Fastqs streamed))
          | Fastqs fs \<Rightarrow>
              bind (stream_fastqs env fs temp_dir) (\<lambda>streamed. ret (Fastqs streamed)))"
    have "\<exists>fq evs n'. m n = (Inr fq, evs, n') \<and> list_all (allowed ?S) evs"
    proof (cases fastqs)
      case (Batch b)
      obtain p evs n' where "stream_batch env b temp_dir n = (Inr p, evs, n')"
        and "list_all (allowed ?S) evs"
        using stream_batch_outcome by blast
      with Batch show ?thesis
        by (cases batch_aware)
           (simp_all add: m_def act_simps bind_known [of "stream_batch env b temp_dir" n]
              bind_known [OF stream_fastqs_outcome] stream_events_allowed)
    next
      case (Fastqs fs)
      then show ?thesis
        by (simp add: m_def act_simps bind_known [OF stream_fastqs_outcome] stream_events_allowed)
    qed
    then obtain fq evs n' where s: "m n = (Inr fq, evs, n')" and a: "list_all (allowed ?S) evs"
      by blast
    have bs: "bus_stage env d0 batch_aware fastqs index_paths technology out_dir temp_dir threads
        memory overwrite paired strand
      = bind m (\<lambda>fastqs. case index_paths of
                      [] \<Rightarrow> raise IndexError
                    | index_path # _ \<Rightarrow>
                        kallisto_bus env fastqs index_path technology out_dir threads False False
                          paired strand)"
      using need False by (simp add: bus_stage_def m_def)
    show ?thesis
      unfolding bs
      by (cases index_paths)
         (simp_all add: bind_known [of m n, OF s] act_simps a kallisto_bus_outcome
            kallisto_bus_command_def kallisto_bus_result_def base_keys_def)
  qed
qed

subsection \<open>Sorting and correcting\<close>

lemmas wrapper_outcomes =
  kallisto_pseudo_outcome kallisto_bus_outcome kallisto_quant_tcc_outcome bustools_mash_outcome
  bustools_merge_outcome bustools_project_outcome bustools_sort_outcome bustools_inspect_outcome
  bustools_correct_outcome bustools_count_outcome bustools_capture_outcome
  bustools_whitelist_outcome

lemma truthy_str_simps: "truthy_str None = False" "truthy_str (Some s) = (s \<noteq> [])"
  by (simp_all add: truthy_str_def)

lemma truthy_int_None: "truthy_int None = False"
  by (simp add: truthy_int_def)

definition raw_bus_path :: "env \<Rightarrow> string \<Rightarrow> string" where
  "raw_bus_path env out_dir = path_join out_dir (constants env ''BUS_FILENAME'')"

definition sorted_raw_path :: "env \<Rightarrow> string \<Rightarrow> string \<Rightarrow> string" where
  "sorted_raw_path env out_dir temp_dir =
     path_join temp_dir
       (update_filename env (basename (raw_bus_path env out_dir)) (constants env ''SORT_CODE''))"

definition stage_whitelist :: "env \<Rightarrow> string \<Rightarrow> string \<Rightarrow> string option \<Rightarrow> bool \<Rightarrow> string option" where
  "stage_whitelist env technology out_dir whitelist_path0 is_batch =
     (if \<not> truthy_str whitelist_path0 \<and> \<not> is_batch
      then Some (if whitelist_provided env technology then copy_whitelist env technology out_dir
                 else path_join out_dir (constants env ''WHITELIST_FILENAME''))
      else whitelist_path0)"

definition whitelist_events ::
  "env \<Rightarrow> string \<Rightarrow> string \<Rightarrow> string \<Rightarrow> string option \<Rightarrow> bool \<Rightarrow> event list" where
  "whitelist_events env technology out_dir temp_dir whitelist_path0 is_batch =
     (if \<not> truthy_str whitelist_path0 \<and> \<not> is_batch
      then [if whitelist_provided env technology
            then Ext ''copy_whitelist'' [Str technology, Str out_dir]
            else Run [opt_arg (get_bustools_binary_path env), Str ''whitelist'', Str ''-o'',
                      Str (path_join out_dir (constants env ''WHITELIST_FILENAME'')),
                      Str (sorted_raw_path env out_dir temp_dir)]]
      else [])"

definition projected_path :: "env \<Rightarrow> string \<Rightarrow> string \<Rightarrow> string" where
  "projected_path env out_dir temp_dir =
     path_join temp_dir
       (update_filename env (basename (sorted_raw_path env out_dir temp_dir))
          (constants env ''PROJECT_CODE''))"

definition stage_prev_path :: "env \<Rightarrow> string \<Rightarrow> string \<Rightarrow> bool \<Rightarrow> string" where
  "stage_prev_path env out_dir temp_dir FB =
     (if FB
      then path_join temp_dir
             (update_filename env (basename (projected_path env out_dir temp_dir))
                (constants env ''SORT_CODE''))
      else sorted_raw_path env out_dir temp_dir)"

definition unfiltered_bus_path :: "env \<Rightarrow> string \<Rightarrow> string" where
  "unfiltered_bus_path env out_dir =
     path_join out_dir (''output.'' @ constants env ''UNFILTERED_CODE'' @ ''.bus'')"

definition sort_command :: "env \<Rightarrow> string \<Rightarrow> string \<Rightarrow> string \<Rightarrow> int \<Rightarrow> string \<Rightarrow> event" where
  "sort_command env bus_path out_path temp_dir threads memory =
     Run [opt_arg (get_bustools_binary_path env), Str ''sort'', Str ''-o'', Str out_path,
          Str ''-T'', Str temp_dir, Str ''-t'', Num threads, Str ''-m'', Str memory, Str bus_path]"

definition correct_command :: "env \<Rightarrow> string \<Rightarrow> string \<Rightarrow> string option \<Rightarrow> event" where
  "correct_command env bus_path out_path whitelist_path =
     Run [opt_arg (get_bustools_binary_path env), Str ''correct'', Str ''-o'', Str out_path,
          Str ''-w'', opt_arg whitelist_path, Str bus_path]"

definition sort_correct_events ::
  "env \<Rightarrow> string \<Rightarrow> string \<Rightarrow> string \<Rightarrow> int \<Rightarrow> string \<Rightarrow> string option \<Rightarrow> bool \<Rightarrow> bool \<Rightarrow> bool
     \<Rightarrow> event list" where
  "sort_correct_events env technology out_dir temp_dir threads memory whitelist_path0 is_batch FB inspect =
     (let whitelist_path = stage_whitelist env technology out_dir whitelist_path0 is_batch;
          prev = stage_prev_path env out_dir temp_dir FB
      in
      [sort_command env (raw_bus_path env out_dir) (sorted_raw_path env out_dir temp_dir) temp_dir
         threads memory]
      @ whitelist_events env technology out_dir temp_dir whitelist_path0 is_batch
      @ (if FB
         then [Ext ''copy_map'' [Str technology, Str out_dir],
               Run [opt_arg (get_bustools_binary_path env), Str ''project'', Str ''-o'',
                    Str (projected_path env out_dir temp_dir), Str ''-m'',
                    Str (copy_map env technology out_dir), Str ''-e'',
                    Str (path_join out_dir (constants env ''ECMAP_FILENAME'')), Str ''-t'',
                    Str (path_join out_dir (constants env ''TXNAMES_FILENAME'')), Str ''--barcode'',
                    Str (sorted_raw_path env out_dir temp_dir)],
               sort_command env (projected_path env out_dir temp_dir) prev temp_dir threads memory]
         else [])
      @ (if inspect
         then [Run ([opt_arg (get_bustools_binary_path env), Str ''inspect'', Str ''-o'',
                     Str (path_join out_dir (constants env ''INSPECT_FILENAME''))]
                    @ (if truthy_str whitelist_path then [Str ''-w'', opt_arg whitelist_path] else [])
                    @ [Str prev])]
         else [])
      @ (if \<not> is_batch
         then [correct_command env prev
                 (path_join temp_dir
                    (update_filename env (basename prev) (constants env ''CORRECT_CODE'')))
                 whitelist_path,
               sort_command env
                 (path_join temp_dir
                    (update_filename env (basename prev) (constants env ''CORRECT_CODE'')))
                 (unfiltered_bus_path env out_dir) temp_dir threads memory]
         else []))"

lemma sort_correct_stage_outcome:
  assumes "base_keys env out_dir bus_result"
  shows "\<exists>u. sort_correct_stage env technology out_dir temp_dir threads memory bus_result
            whitelist_path0 is_batch FB inspect u0 n
         = (Inr ([(''bus'', Path (if is_batch then stage_prev_path env out_dir temp_dir FB
                                  else unfiltered_bus_path env out_dir))],
                 stage_whitelist env technology out_dir whitelist_path0 is_batch,
                 (if inspect
                  then Some [(''inspect'', Path (path_join out_dir (constants env ''INSPECT_FILENAME'')))]
                  else None),
                 u),
            sort_correct_events env technology out_dir temp_dir threads memory whitelist_path0
              is_batch FB inspect,
            n)"
  using assms
  by (cases is_batch; cases FB; cases inspect; cases "truthy_str whitelist_path0";
      cases "whitelist_provided env technology")
     (simp_all add: sort_correct_stage_def sort_correct_events_def Let_def base_keys_def
        act_simps wrapper_binds wrapper_outcomes getpath_def getitem_def copy_or_create_whitelist_def
        truthy_str_simps(1) truthy_int_None
        raw_bus_path_def sorted_raw_path_def stage_whitelist_def whitelist_events_def
        projected_path_def stage_prev_path_def unfiltered_bus_path_def sort_command_def
        correct_command_def)

subsection \<open>Orderings that hold stage by stage\<close>

text \<open>
  \<open>ordered P Q m\<close>: in every run of \<open>m\<close>, no event satisfying \<open>Q\<close> comes before the
  first event satisfying \<open>P\<close>. It holds of a sequence when it holds of its parts.
\<close>

definition ordered :: "(event \<Rightarrow> bool) \<Rightarrow> (event \<Rightarrow> bool) \<Rightarrow> 'a act \<Rightarrow> bool" where
  "ordered P Q m = (\<forall>n. follows [P] Q (events (m n)))"



lemma follows_one_append:
  "follows [P] Q xs \<Longrightarrow> follows [P] Q ys \<Longrightarrow> follows [P] Q (xs @ ys)"
  by (induction xs) (auto split: if_splits)

lemma is_cmd_Run [simp]: "is_cmd name (Run (b # Str c # rest)) = (c = name)"
  by (simp add: is_cmd_def cmd_name_def)

lemma is_cmd_other [simp]:
  "\<not> is_cmd name (Ext a b)" "\<not> is_cmd name (Write p c)" "\<not> is_cmd name (JsonDump p j)"
  by (simp_all add: is_cmd_def cmd_name_def)

lemma allowed_free: "list_all (allowed S) evs \<Longrightarrow> c \<notin> S \<Longrightarrow> free_of (is_cmd c) evs"
proof (induction evs)
  case Nil
  then show ?case by (simp add: free_of_def)
next
  case (Cons e evs)
  then have "allowed S e" and rest: "free_of (is_cmd c) evs"
    by simp_all
  with Cons.prems(2) have "\<not> is_cmd c e"
    by (cases e) (auto simp: allowed_def is_cmd_def cmd_name_def)
  with rest show ?case by (simp add: free_of_def)
qed

named_theorems ord

lemma ordered_ret [ord]: "ordered P Q (ret x)"
  by (simp add: ordered_def ret_def events_def)

lemma ordered_raise [ord]: "ordered P Q (raise e)"
  by (simp add: ordered_def raise_def events_def)

lemma ordered_emit_other [ord]:
  "ordered P (is_cmd q) (emit (Ext a b))"
  "ordered P (is_cmd q) (emit (Write p c))"
  "ordered P (is_cmd q) (emit (JsonDump p j))"
  by (simp_all add: ordered_def emit_def events_def)

lemma ordered_bind [ord]:
  assumes m: "ordered P Q m" and f: "\<And>x. ordered P Q (f x)"
  shows "ordered P Q (bind m f)"
  unfolding ordered_def
proof
  fix n
  from m have a: "follows [P] Q (events (m n))"
    by (simp add: ordered_def)
  show "follows [P] Q (events (bind m f n))"
  proof (cases "m n" rule: prod_cases3)
    case (fields r evs n')
    show ?thesis
    proof (cases r)
      case (Inl e)
      with fields a show ?thesis by (simp add: bind_def events_def)
    next
      case (Inr x)
      from f have "follows [P] Q (events (f x n'))"
        by (simp add: ordered_def)
      with fields Inr a show ?thesis
        by (simp add: bind_def events_def pre_def follows_one_append)
    qed
  qed
qed


lemma ordered_if [ord]:
  "ordered P Q a \<Longrightarrow> ordered P Q b \<Longrightarrow> ordered P Q (if c then a else b)"
  by simp

lemma ordered_case_option [ord]:
  "ordered P Q a \<Longrightarrow> (\<And>x. ordered P Q (f x)) \<Longrightarrow> ordered P Q (case_option a f v)"
  by (cases v) simp_all

lemma ordered_case_list [ord]:
  "ordered P Q a \<Longrightarrow> (\<And>x xs. ordered P Q (f x xs)) \<Longrightarrow> ordered P Q (case_list a f v)"
  by (cases v) simp_all

lemma ordered_case_val [ord]:
  "(\<And>p. ordered P Q (f p)) \<Longrightarrow> ordered P Q a \<Longrightarrow> (\<And>d. ordered P Q (g d))
   \<Longrightarrow> ordered P Q (case_val f a g v)"
  by (cases v) simp_all

lemma ordered_getitem [ord]: "ordered P Q (getitem d k)"
  unfolding getitem_def by (intro ord)

lemma ordered_getpath [ord]: "ordered P Q (getpath d k)"
  unfolding getpath_def by (intro ord)

lemma ordered_getitem2 [ord]: "ordered P Q (getitem2 d k1 k2)"
  unfolding getitem2_def by (intro ord)

lemma ordered_get2 [ord]: "ordered P Q (get2 d k1 k2)"
  unfolding get2_def by (intro ord)

lemma ordered_update_at [ord]: "ordered P Q (update_at k other d)"
  unfolding update_at_def by (intro ord)

lemma ordered_make_directory [ord]: "ordered P (is_cmd q) (make_directory p)"
  unfolding make_directory_def by (intro ord)

lemma ordered_foldM [ord]:
  "(\<And>x st. ordered P Q (f x st)) \<Longrightarrow> ordered P Q (foldM f xs st)"
  by (induction xs arbitrary: st) (simp_all add: ordered_ret ordered_bind)

lemma ordered_mapM [ord]: "(\<And>x. ordered P Q (f x)) \<Longrightarrow> ordered P Q (mapM f xs)"
  by (induction xs) (simp_all add: ordered_ret ordered_bind)

lemma ordered_bustools_sort [ord]:
  "q \<noteq> ''sort'' \<Longrightarrow> ordered P (is_cmd q) (bustools_sort env a b c d e f)"
  by (auto simp add: ordered_def events_def bustools_sort_outcome)

lemma ordered_bustools_correct [ord]:
  "q \<noteq> ''correct'' \<Longrightarrow> ordered P (is_cmd q) (bustools_correct env a b c)"
  by (auto simp add: ordered_def events_def bustools_correct_outcome)

lemma ordered_bustools_whitelist [ord]:
  "q \<noteq> ''whitelist'' \<Longrightarrow> ordered P (is_cmd q) (bustools_whitelist env a b c)"
  by (auto simp add: ordered_def events_def bustools_whitelist_outcome)

lemma ordered_bustools_inspect [ord]:
  "q \<noteq> ''inspect'' \<Longrightarrow> ordered P (is_cmd q) (bustools_inspect env a b c d)"
  by (auto simp add: ordered_def events_def bustools_inspect_outcome)

lemma ordered_bustools_capture [ord]:
  "q \<noteq> ''capture'' \<Longrightarrow> ordered P (is_cmd q) (bustools_capture env a b c d e f g)"
  by (auto simp add: ordered_def events_def bustools_capture_outcome)

lemma ordered_bustools_count [ord]:
  "q \<noteq> ''count'' \<Longrightarrow> ordered P (is_cmd q) (bustools_count env a b c d e f g h i j)"
  by (auto simp add: ordered_def events_def bustools_count_outcome bustools_count_command_def)

lemma ordered_kallisto_quant_tcc [ord]:
  "q \<noteq> ''quant-tcc'' \<Longrightarrow> ordered P (is_cmd q) (kallisto_quant_tcc env a b c d e f g h i)"
  by (auto simp add: ordered_def events_def kallisto_quant_tcc_outcome)

lemma ordered_matrix_to_cellranger [ord]:
  "ordered P (is_cmd q) (matrix_to_cellranger env a b c d e)"
  unfolding matrix_to_cellranger_def Let_def by (intro ord)

lemma follows_one_free: "list_all (\<lambda>e. \<not> Q e) evs \<Longrightarrow> follows [P] Q evs"
  by (induction evs) simp_all

lemma ordered_convert_matrix [ord]:
  "ordered P (is_cmd q) (convert_matrix env a b c d e f g h i j k l)"
  unfolding ordered_def
  by (rule allI, rule follows_one_free)
     (simp add: events_def convert_matrix_outcome adata_events_def import_adata_def)

lemma ordered_convert_matrices [ord]:
  "ordered P (is_cmd q) (convert_matrices env a b c d e f g h i j k l m)"
  unfolding ordered_def
  by (rule allI, rule follows_one_free)
     (simp add: events_def convert_matrices_outcome adata_events_def import_adata_def
        list.pred_map comp_def list.pred_True case_prod_beta)

lemma ordered_write_smartseq3_capture [ord]:
  "ordered P (is_cmd q) (write_smartseq3_capture env p)"
  unfolding write_smartseq3_capture_def by (intro ord)



lemma ordered_filter_with_bustools [ord]:
  "q \<notin> {''whitelist'', ''correct'', ''sort'', ''count''} \<Longrightarrow>
   ordered P (is_cmd q) (filter_with_bustools env a b c d e f g h i j k l m n0 p r s t u v)"
  unfolding filter_with_bustools_def Let_def by (intro ord) simp_all


subsection \<open>What follows sorting and correcting\<close>












subsection \<open>The three orchestration functions as one pipeline\<close>

text \<open>
  \<open>count\<close>, \<open>count_smartseq3\<close> and \<open>count_velocity\<close> share their beginning:
  statistics, the output directory, \<open>kallisto bus\<close>, sorting and correcting.
\<close>

definition pipeline ::
  "env \<Rightarrow> pydict \<Rightarrow> bool \<Rightarrow> fastqs \<Rightarrow> string list \<Rightarrow> string \<Rightarrow> string \<Rightarrow> string \<Rightarrow> string \<Rightarrow> int
     \<Rightarrow> string \<Rightarrow> bool \<Rightarrow> bool \<Rightarrow> string option \<Rightarrow> string option \<Rightarrow> bool \<Rightarrow> bool \<Rightarrow> bool
     \<Rightarrow> (pydict \<Rightarrow> pydict \<times> string option \<times> pydict option \<times> pydict \<Rightarrow> pydict act)
     \<Rightarrow> pydict act" where
  "pipeline env d0 batch_aware fastqs index_paths bus_technology technology out_dir temp_dir threads
       memory overwrite paired strand whitelist_path0 is_batch FB inspect tail =
     bind (emit (Ext ''STATS.start'' []))
     (\<lambda>_. bind (make_directory out_dir)
     (\<lambda>_. bind (bus_stage env d0 batch_aware fastqs index_paths bus_technology out_dir temp_dir
                   threads memory overwrite paired strand)
     (\<lambda>bus_result.
     bind (sort_correct_stage env technology out_dir temp_dir threads memory bus_result
             whitelist_path0 is_batch FB inspect (dict_update [] bus_result))
     (tail bus_result))))"

definition stage_state ::
  "env \<Rightarrow> string \<Rightarrow> string \<Rightarrow> string \<Rightarrow> string option \<Rightarrow> bool \<Rightarrow> bool \<Rightarrow> bool \<Rightarrow> pydict
     \<Rightarrow> pydict \<times> string option \<times> pydict option \<times> pydict" where
  "stage_state env technology out_dir temp_dir whitelist_path0 is_batch FB inspect u =
     ([(''bus'', Path (if is_batch then stage_prev_path env out_dir temp_dir FB
                       else unfiltered_bus_path env out_dir))],
      stage_whitelist env technology out_dir whitelist_path0 is_batch,
      (if inspect
       then Some [(''inspect'', Path (path_join out_dir (constants env ''INSPECT_FILENAME'')))]
       else None),
      u)"












lemma count_pipeline:
  "count env index_paths t2g_path technology out_dir fastqs whitelist_path tcc mm filter_opt
     filter_threshold kite FB temp_dir threads memory overwrite loom h5ad cellranger inspect report
     fragment_l fragment_s paired strand umi_gene em
   = pipeline env
       (if cm_technology technology
        then dict_set ''saved_index''
               (Path (path_join out_dir (constants env ''SAVED_INDEX_FILENAME'')))
               (default_bus_result env out_dir)
        else default_bus_result env out_dir)
       True fastqs (index_list index_paths)
       (if upper technology = ''SMARTSEQ2'' then ''BULK'' else technology) technology out_dir
       temp_dir threads memory overwrite paired strand whitelist_path (is_batch_of fastqs) FB
       inspect
       (count_tail env t2g_path technology out_dir tcc mm filter_opt filter_threshold kite temp_dir
          threads memory loom h5ad cellranger report fragment_l fragment_s umi_gene em)"
  unfolding count_def pipeline_def Let_def by (rule refl)



lemma count_base_keys:
  "base_keys env out_dir
     (if cm_technology technology
      then dict_set ''saved_index''
             (Path (path_join out_dir (constants env ''SAVED_INDEX_FILENAME'')))
             (default_bus_result env out_dir)
      else default_bus_result env out_dir)"
  by (simp add: base_keys_def default_bus_result_def)



subsection \<open>The whitelist\<close>

lemma pipeline_events_indexed:
  assumes d0: "base_keys env out_dir d0" and ne: "index_paths \<noteq> []"
  shows "\<exists>Eb. list_all (allowed {''bus'', ''sort'', ''mash'', ''merge''}) Eb
     \<and> (\<exists>d u n'. base_keys env out_dir d
             \<and> events (pipeline env d0 batch_aware fastqs index_paths bus_technology technology
                         out_dir temp_dir threads memory overwrite paired strand whitelist_path0
                         is_batch FB inspect tail n)
               = [Ext ''STATS.start'' [], Ext ''make_directory'' [Str out_dir]] @ Eb
                 @ sort_correct_events env technology out_dir temp_dir threads memory
                     whitelist_path0 is_batch FB inspect
                 @ events (tail d (stage_state env technology out_dir temp_dir whitelist_path0
                                     is_batch FB inspect u) n'))"
proof -
  let ?S = "{''bus'', ''sort'', ''mash'', ''merge''}"
  let ?A0 = "[Ext ''STATS.start'' [], Ext ''make_directory'' [Str out_dir]]"
  let ?SC = "sort_correct_events env technology out_dir temp_dir threads memory whitelist_path0
               is_batch FB inspect"
  let ?run = "pipeline env d0 batch_aware fastqs index_paths bus_technology technology out_dir
                temp_dir threads memory overwrite paired strand whitelist_path0 is_batch FB inspect
                tail n"
  let ?bs = "bus_stage env d0 batch_aware fastqs index_paths bus_technology out_dir temp_dir
               threads memory overwrite paired strand"
  let ?P = "\<lambda>r Eb n'. bus_stage env d0 batch_aware fastqs index_paths bus_technology out_dir temp_dir
          threads memory overwrite paired strand n = (r, Eb, n')
      \<and> list_all (allowed ?S) Eb
      \<and> ((r = Inl IndexError \<and> index_paths = []) \<or> (\<exists>d. r = Inr d \<and> base_keys env out_dir d))"
  have "\<exists>r Eb n'. ?P r Eb n'"
    by (rule bus_stage_cases [OF d0])
  then obtain r where "\<exists>Eb n'. ?P r Eb n'" ..
  then obtain Eb where "\<exists>n'. ?P r Eb n'" ..
  then obtain n' where all: "?P r Eb n'" ..
  note b = all [THEN conjunct1] and al = all [THEN conjunct2, THEN conjunct1]
    and c = all [THEN conjunct2, THEN conjunct2]
  from c show ?thesis
  proof
    assume "r = Inl IndexError \<and> index_paths = []"
    then have "index_paths = []" ..
    with ne show ?thesis by (rule notE)
  next
    assume "\<exists>d. r = Inr d \<and> base_keys env out_dir d"
    then obtain d where rd: "r = Inr d \<and> base_keys env out_dir d" ..
    note r = rd [THEN conjunct1] and d = rd [THEN conjunct2]
    have "\<exists>u. sort_correct_stage env technology out_dir temp_dir threads memory d
        whitelist_path0 is_batch FB inspect (dict_update [] d) n'
      = (Inr (stage_state env technology out_dir temp_dir whitelist_path0 is_batch FB inspect u),
         ?SC, n')"
      unfolding stage_state_def by (rule sort_correct_stage_outcome [OF d])
    then obtain u where s: "sort_correct_stage env technology out_dir temp_dir threads memory d
        whitelist_path0 is_batch FB inspect (dict_update [] d) n'
      = (Inr (stage_state env technology out_dir temp_dir whitelist_path0 is_batch FB inspect u),
         ?SC, n')" ..
    from b have b': "bus_stage env d0 batch_aware fastqs index_paths bus_technology out_dir
        temp_dir threads memory overwrite paired strand n = (Inr d, Eb, n')"
      unfolding r .
    have ev: "events ?run
      = ?A0 @ Eb @ ?SC
         @ events (tail d (stage_state env technology out_dir temp_dir whitelist_path0
                             is_batch FB inspect u) n')"
      unfolding pipeline_def make_directory_def
      by (simp only: bind_emit bind_known [of ?bs n, OF b']
          bind_known [of "sort_correct_stage env technology out_dir temp_dir threads memory d
             whitelist_path0 is_batch FB inspect (dict_update [] d)" n', OF s] events_pre pre_pre
          append_Cons append_Nil append_assoc)
    show ?thesis
      by (rule exI [of _ Eb], rule conjI [OF al], rule exI [of _ d],
          rule exI [of _ u], rule exI [of _ n'], rule conjI [OF d ev])
  qed
qed



lemma sort_correct_events_whitelist:
  "sort_correct_events env technology out_dir temp_dir threads memory None False FB inspect
   = [Run [opt_arg (get_bustools_binary_path env), Str ''sort'', Str ''-o'',
           Str (sorted_raw_path env out_dir temp_dir), Str ''-T'', Str temp_dir, Str ''-t'',
           Num threads, Str ''-m'', Str memory, Str (raw_bus_path env out_dir)],
      (if whitelist_provided env technology
       then Ext ''copy_whitelist'' [Str technology, Str out_dir]
       else Run [opt_arg (get_bustools_binary_path env), Str ''whitelist'', Str ''-o'',
                 Str (path_join out_dir (constants env ''WHITELIST_FILENAME'')),
                 Str (sorted_raw_path env out_dir temp_dir)])]
     @ ((if FB
         then [Ext ''copy_map'' [Str technology, Str out_dir],
               Run [opt_arg (get_bustools_binary_path env), Str ''project'', Str ''-o'',
                    Str (projected_path env out_dir temp_dir), Str ''-m'',
                    Str (copy_map env technology out_dir), Str ''-e'',
                    Str (path_join out_dir (constants env ''ECMAP_FILENAME'')), Str ''-t'',
                    Str (path_join out_dir (constants env ''TXNAMES_FILENAME'')), Str ''--barcode'',
                    Str (sorted_raw_path env out_dir temp_dir)],
               sort_command env (projected_path env out_dir temp_dir)
                 (stage_prev_path env out_dir temp_dir FB) temp_dir threads memory]
         else [])
        @ (if inspect
           then [Run ([opt_arg (get_bustools_binary_path env), Str ''inspect'', Str ''-o'',
                       Str (path_join out_dir (constants env ''INSPECT_FILENAME''))]
                      @ (if truthy_str (stage_whitelist env technology out_dir None False)
                         then [Str ''-w'', opt_arg (stage_whitelist env technology out_dir None False)]
                         else [])
                      @ [Str (stage_prev_path env out_dir temp_dir FB)])]
           else []))
     @ [Run [opt_arg (get_bustools_binary_path env), Str ''correct'', Str ''-o'',
             Str (path_join temp_dir
                    (update_filename env (basename (stage_prev_path env out_dir temp_dir FB))
                       (constants env ''CORRECT_CODE''))),
             Str ''-w'',
             Str (if whitelist_provided env technology then copy_whitelist env technology out_dir
                  else path_join out_dir (constants env ''WHITELIST_FILENAME'')),
             Str (stage_prev_path env out_dir temp_dir FB)]]
     @ [sort_command env
          (path_join temp_dir
             (update_filename env (basename (stage_prev_path env out_dir temp_dir FB))
                (constants env ''CORRECT_CODE'')))
          (unfiltered_bus_path env out_dir) temp_dir threads memory]"
  by (simp add: sort_correct_events_def whitelist_events_def stage_whitelist_def Let_def
      truthy_str_simps sort_command_def correct_command_def opt_arg_def)

text \<open>
  C7. When \<open>count\<close> is called with no whitelist and a list of FASTQs (and at least one
  index), the sort of the raw BUS file is followed at once by the step that obtains a
  whitelist: the whitelist shipped for the technology is copied into \<open>out_dir\<close> when
  there is one, otherwise \<open>bustools whitelist\<close> is run on the sorted BUS file, writing
  to the whitelist file of \<open>out_dir\<close>. The first \<open>bustools correct\<close> of the run comes
  later and is given exactly that path after \<open>-w\<close>.
\<close>

theorem count_obtains_whitelist:
  assumes "index_list index_paths \<noteq> []"
  shows "\<exists>before between after correct_out correct_in.
     events (count env index_paths t2g_path technology out_dir (Fastqs fs) None tcc mm filter_opt
               filter_threshold kite FB temp_dir threads memory overwrite loom h5ad cellranger
               inspect report fragment_l fragment_s paired strand umi_gene em n)
     = before
       @ [Run [opt_arg (get_bustools_binary_path env), Str ''sort'', Str ''-o'',
               Str (path_join temp_dir
                      (update_filename env
                         (basename (path_join out_dir (constants env ''BUS_FILENAME'')))
                         (constants env ''SORT_CODE''))),
               Str ''-T'', Str temp_dir, Str ''-t'', Num threads, Str ''-m'', Str memory,
               Str (path_join out_dir (constants env ''BUS_FILENAME''))],
          (if whitelist_provided env technology
           then Ext ''copy_whitelist'' [Str technology, Str out_dir]
           else Run [opt_arg (get_bustools_binary_path env), Str ''whitelist'', Str ''-o'',
                     Str (path_join out_dir (constants env ''WHITELIST_FILENAME'')),
                     Str (path_join temp_dir
                            (update_filename env
                               (basename (path_join out_dir (constants env ''BUS_FILENAME'')))
                               (constants env ''SORT_CODE'')))])]
       @ between
       @ [Run [opt_arg (get_bustools_binary_path env), Str ''correct'', Str ''-o'', Str correct_out,
               Str ''-w'',
               Str (if whitelist_provided env technology
                    then copy_whitelist env technology out_dir
                    else path_join out_dir (constants env ''WHITELIST_FILENAME'')),
               Str correct_in]]
       @ after
     \<and> free_of (is_cmd ''correct'') before \<and> free_of (is_cmd ''correct'') between
     \<and> free_of (is_cmd ''whitelist'') before"
proof -
  let ?A0 = "[Ext ''STATS.start'' [], Ext ''make_directory'' [Str out_dir]]"
  let ?tail = "count_tail env t2g_path technology out_dir tcc mm filter_opt filter_threshold kite
     temp_dir threads memory loom h5ad cellranger report fragment_l fragment_s umi_gene em"
  let ?d0 = "if cm_technology technology
        then dict_set ''saved_index''
               (Path (path_join out_dir (constants env ''SAVED_INDEX_FILENAME'')))
               (default_bus_result env out_dir)
        else default_bus_result env out_dir"
  let ?run = "events (pipeline env ?d0 True (Fastqs fs) (index_list index_paths)
       (if upper technology = ''SMARTSEQ2'' then ''BULK'' else technology) technology out_dir
       temp_dir threads memory overwrite paired strand None False FB inspect ?tail n)"
  let ?SC = "sort_correct_events env technology out_dir temp_dir threads memory None False FB
     inspect"
  let ?between = "(if FB
         then [Ext ''copy_map'' [Str technology, Str out_dir],
               Run [opt_arg (get_bustools_binary_path env), Str ''project'', Str ''-o'',
                    Str (projected_path env out_dir temp_dir), Str ''-m'',
                    Str (copy_map env technology out_dir), Str ''-e'',
                    Str (path_join out_dir (constants env ''ECMAP_FILENAME'')), Str ''-t'',
                    Str (path_join out_dir (constants env ''TXNAMES_FILENAME'')), Str ''--barcode'',
                    Str (sorted_raw_path env out_dir temp_dir)],
               sort_command env (projected_path env out_dir temp_dir)
                 (stage_prev_path env out_dir temp_dir FB) temp_dir threads memory]
         else [])
        @ (if inspect
           then [Run ([opt_arg (get_bustools_binary_path env), Str ''inspect'', Str ''-o'',
                       Str (path_join out_dir (constants env ''INSPECT_FILENAME''))]
                      @ (if truthy_str (stage_whitelist env technology out_dir None False)
                         then [Str ''-w'', opt_arg (stage_whitelist env technology out_dir None False)]
                         else [])
                      @ [Str (stage_prev_path env out_dir temp_dir FB)])]
           else [])"
  from pipeline_events_indexed [OF count_base_keys assms, of env out_dir technology True
      "Fastqs fs" "if upper technology = ''SMARTSEQ2'' then ''BULK'' else technology" technology
      temp_dir threads memory overwrite paired strand None False FB inspect ?tail n]
  obtain Eb T where al: "list_all (allowed {''bus'', ''sort'', ''mash'', ''merge''}) Eb"
    and run: "?run = (?A0 @ Eb) @ ?SC @ T"
    by (elim exE conjE) (simp only: append_assoc)
  from allowed_free [OF al, of "''correct''"] have f1: "free_of (is_cmd ''correct'') (?A0 @ Eb)"
    by (simp add: free_of_def)
  from allowed_free [OF al, of "''whitelist''"] have f3: "free_of (is_cmd ''whitelist'') (?A0 @ Eb)"
    by (simp add: free_of_def)
  have f2: "free_of (is_cmd ''correct'') ?between"
    by (simp add: free_of_def sort_command_def)
  have is_batch: "is_batch_of (Fastqs fs) = False"
    by (simp add: is_batch_of_def)
  show ?thesis
    unfolding count_pipeline is_batch run sort_correct_events_whitelist
    by (rule exI [of _ "?A0 @ Eb"], rule exI [of _ ?between], rule exI, rule exI, rule exI,
        intro conjI f1 f2 f3)
       (simp only: append_assoc sorted_raw_path_def raw_bus_path_def)
qed

theorem count_obtains_whitelist_witness:
  "index_list (Single ''a.idx'') \<noteq> []
   \<and> (\<exists>before between after correct_out correct_in.
     events (count example_env (Single ''a.idx'') ''t2g.txt'' ''10XV3'' ''out'' (Fastqs [''r1.fq'', ''r2.fq'']) None False False None
               None False False ''tmp'' 8 ''4G'' False False False False
               False False None None False None False False 0)
     = before
       @ [Run [opt_arg (get_bustools_binary_path example_env), Str ''sort'', Str ''-o'',
               Str (path_join ''tmp''
                      (update_filename example_env
                         (basename (path_join ''out'' (constants example_env ''BUS_FILENAME'')))
                         (constants example_env ''SORT_CODE''))),
               Str ''-T'', Str ''tmp'', Str ''-t'', Num 8, Str ''-m'', Str ''4G'',
               Str (path_join ''out'' (constants example_env ''BUS_FILENAME''))],
          (if whitelist_provided example_env ''10XV3''
           then Ext ''copy_whitelist'' [Str ''10XV3'', Str ''out'']
           else Run [opt_arg (get_bustools_binary_path example_env), Str ''whitelist'', Str ''-o'',
                     Str (path_join ''out'' (constants example_env ''WHITELIST_FILENAME'')),
                     Str (path_join ''tmp''
                            (update_filename example_env
                               (basename (path_join ''out'' (constants example_env ''BUS_FILENAME'')))
                               (constants example_env ''SORT_CODE'')))])]
       @ between
       @ [Run [opt_arg (get_bustools_binary_path example_env), Str ''correct'', Str ''-o'', Str correct_out,
               Str ''-w'',
               Str (if whitelist_provided example_env ''10XV3''
                    then copy_whitelist example_env ''10XV3'' ''out''
                    else path_join ''out'' (constants example_env ''WHITELIST_FILENAME'')),
               Str correct_in]]
       @ after
     \<and> free_of (is_cmd ''correct'') before \<and> free_of (is_cmd ''correct'') between
     \<and> free_of (is_cmd ''whitelist'') before)"
  using count_obtains_whitelist
    [where index_paths = "Single ''a.idx''" and env = "example_env" and t2g_path = "''t2g.txt''" and technology = "''10XV3''" and out_dir = "''out''" and fs = "[''r1.fq'', ''r2.fq'']" and tcc = "False" and mm = "False" and filter_opt = "None" and filter_threshold = "None" and kite = "False" and FB = "False" and temp_dir = "''tmp''" and threads = "8" and memory = "''4G''" and overwrite = "False" and loom = "False" and h5ad = "False" and cellranger = "False" and inspect = "False" and report = "False" and fragment_l = "None" and fragment_s = "None" and paired = "False" and strand = "None" and umi_gene = "False" and em = "False" and n = "0"]
  by (simp add: index_list_def)

subsection \<open>The counting branch\<close>

text \<open>
  With one index, \<open>count\<close> for \<open>smartseq2\<close> and \<open>tcc\<close> runs \<open>kallisto bus\<close> with
  \<open>-x BULK\<close>, \<open>bustools count\<close> with \<open>--cm\<close> and then \<open>kallisto quant-tcc\<close>; for
  \<open>10XV2\<close> and \<open>tcc\<close> it runs \<open>bustools count\<close> without \<open>--cm\<close> and no
  \<open>kallisto quant-tcc\<close>.
\<close>

lemma count_smartseq2_single_index:
  "commands (count example_env (Single ''a.idx'') ''t2g.txt'' ''smartseq2'' ''out''
      (Fastqs [''r1.fq'', ''r2.fq'']) None True False None None False False ''tmp'' 8 ''4G'' False
      False False False False False None None False None False False 0)
   = [[Str ''kallisto'', Str ''bus'', Str ''-i'', Str ''a.idx'', Str ''-o'', Str ''out'',
         Str ''-x'', Str ''BULK'', Str ''-t'', Num 8, Str ''r1.fq'', Str ''r2.fq''],
      [Str ''bustools'', Str ''sort'', Str ''-o'', Str ''tmp/output.bus.s'', Str ''-T'', Str
         ''tmp'', Str ''-t'', Num 8, Str ''-m'', Str ''4G'', Str ''out/output.bus''],
      [Str ''bustools'', Str ''whitelist'', Str ''-o'', Str ''out/whitelist.txt'', Str
         ''tmp/output.bus.s''],
      [Str ''bustools'', Str ''correct'', Str ''-o'', Str ''tmp/output.bus.s.c'', Str
         ''-w'', Str ''out/whitelist.txt'', Str ''tmp/output.bus.s''],
      [Str ''bustools'', Str ''sort'', Str ''-o'', Str ''out/output.unfiltered.bus'', Str
         ''-T'', Str ''tmp'', Str ''-t'', Num 8, Str ''-m'', Str ''4G'', Str
         ''tmp/output.bus.s.c''],
      [Str ''bustools'', Str ''count'', Str ''-o'', Str
         ''out/counts_unfiltered/cells_x_tcc'', Str ''-g'', Str ''t2g.txt'', Str ''-e'', Str
         ''out/matrix.ec'', Str ''-t'', Str ''out/transcripts.txt'', Str ''--multimapping'',
         Str ''--cm'', Str ''out/output.unfiltered.bus''],
      [Str ''kallisto'', Str ''quant-tcc'', Str ''-o'', Str ''out/quant_unfiltered'', Str
         ''-i'', Str ''out/index.saved'', Str ''-e'', Str ''out/matrix.ec'', Str ''-g'', Str
         ''t2g.txt'', Str ''-t'', Num 8, Str ''out/counts_unfiltered/cells_x_tcc.mtx'']]"
  by code_simp

lemma count_10xv2_single_index:
  "commands (count example_env (Single ''a.idx'') ''t2g.txt'' ''10XV2'' ''out''
      (Fastqs [''r1.fq'', ''r2.fq'']) None True False None None False False ''tmp'' 8 ''4G'' False
      False False False False False None None False None False False 0)
   = [[Str ''kallisto'', Str ''bus'', Str ''-i'', Str ''a.idx'', Str ''-o'', Str ''out'',
         Str ''-x'', Str ''10XV2'', Str ''-t'', Num 8, Str ''r1.fq'', Str ''r2.fq''],
      [Str ''bustools'', Str ''sort'', Str ''-o'', Str ''tmp/output.bus.s'', Str ''-T'', Str
         ''tmp'', Str ''-t'', Num 8, Str ''-m'', Str ''4G'', Str ''out/output.bus''],
      [Str ''bustools'', Str ''correct'', Str ''-o'', Str ''tmp/output.bus.s.c'', Str
         ''-w'', Str ''out/10xv2_whitelist.txt'', Str ''tmp/output.bus.s''],
      [Str ''bustools'', Str ''sort'', Str ''-o'', Str ''out/output.unfiltered.bus'', Str
         ''-T'', Str ''tmp'', Str ''-t'', Num 8, Str ''-m'', Str ''4G'', Str
         ''tmp/output.bus.s.c''],
      [Str ''bustools'', Str ''count'', Str ''-o'', Str
         ''out/counts_unfiltered/cells_x_tcc'', Str ''-g'', Str ''t2g.txt'', Str ''-e'', Str
         ''out/matrix.ec'', Str ''-t'', Str ''out/transcripts.txt'', Str ''--multimapping'',
         Str ''out/output.unfiltered.bus'']]"
  by code_simp

text \<open>
  C3. With two indices, \<open>BULK\<close> and \<open>tcc\<close>, and output files that do not exist yet,
  \<open>count\<close> takes the dictionary of \<open>kallisto_bus_split\<close>, which has no
  \<open>saved_index\<close>: \<open>bustools count\<close> is run with \<open>--cm\<close>, the directory for the
  quantification is made, and the run ends with \<open>KeyError\<close> on \<open>saved_index\<close>;
  \<open>kallisto quant-tcc\<close> is not run.
\<close>

theorem count_quant_tcc_multiple_indices:
  "count example_env (Multi [''a.idx'', ''b.idx'']) ''t2g.txt'' ''BULK'' ''out''
      (Fastqs [''r1.fq'', ''r2.fq'']) None True False None None False False ''tmp'' 8 ''4G'' False
      False False False False False None None False None False False 0
   = (Inl (KeyError ''saved_index''),
      [Ext ''STATS.start'' [],
       Ext ''make_directory'' [Str ''out''],
       Run [Str ''kallisto'', Str ''bus'', Str ''-i'', Str ''a.idx'', Str ''-o'', Str
          ''tmp/bus_part0'', Str ''-x'', Str ''BULK'', Str ''-t'', Num 8, Str ''--num'', Str
          ''--kmer'', Str ''r1.fq'', Str ''r2.fq''],
       Ext ''get_temporary_filename'' [Str ''tmp''],
       Run [Str ''bustools'', Str ''sort'', Str ''-o'', Str ''tmp/tmp0'', Str ''-T'', Str
          ''tmp'', Str ''-t'', Num 8, Str ''-m'', Str ''4G'', Str ''--flags'', Str
          ''tmp/bus_part0/output.bus''],
       Ext ''move_file'' [Str ''tmp/tmp0'', Str ''tmp/bus_part0/output.bus''],
       Run [Str ''kallisto'', Str ''bus'', Str ''-i'', Str ''b.idx'', Str ''-o'', Str
          ''tmp/bus_part1'', Str ''-x'', Str ''BULK'', Str ''-t'', Num 8, Str ''--num'', Str
          ''--kmer'', Str ''r1.fq'', Str ''r2.fq''],
       Ext ''get_temporary_filename'' [Str ''tmp''],
       Run [Str ''bustools'', Str ''sort'', Str ''-o'', Str ''tmp/tmp1'', Str ''-T'', Str
          ''tmp'', Str ''-t'', Num 8, Str ''-m'', Str ''4G'', Str ''--flags'', Str
          ''tmp/bus_part1/output.bus''],
       Ext ''move_file'' [Str ''tmp/tmp1'', Str ''tmp/bus_part1/output.bus''],
       Run [Str ''bustools'', Str ''mash'', Str ''-o'', Str ''out'', Str ''tmp/bus_part0'',
          Str ''tmp/bus_part1''],
       Ext ''json.load'' [Str ''tmp/bus_part0/run_info.json''],
       Ext ''json.load'' [Str ''tmp/bus_part1/run_info.json''],
       JsonDump ''out/run_info.json'' [],
       Ext ''get_temporary_filename'' [Str ''tmp''],
       Run [Str ''bustools'', Str ''sort'', Str ''-o'', Str ''tmp/tmp2'', Str ''-T'', Str
          ''tmp'', Str ''-t'', Num 8, Str ''-m'', Str ''4G'', Str ''--flags'', Str
          ''out/mashed.bus''],
       Ext ''move_file'' [Str ''tmp/tmp2'', Str ''out/mashed.bus''],
       Run [Str ''bustools'', Str ''merge'', Str ''-o'', Str ''out'', Str ''-e'', Str
          ''out/matrix.ec'', Str ''-t'', Str ''out/transcripts.txt'', Str ''out/mashed.bus''],
       Ext ''move_file'' [Str ''out/merged.bus'', Str ''out/output.bus''],
       Ext ''move_file'' [Str ''out/merged.ec'', Str ''out/matrix.ec''],
       Run [Str ''bustools'', Str ''sort'', Str ''-o'', Str ''tmp/output.bus.s'', Str
          ''-T'', Str ''tmp'', Str ''-t'', Num 8, Str ''-m'', Str ''4G'', Str
          ''out/output.bus''],
       Run [Str ''bustools'', Str ''whitelist'', Str ''-o'', Str ''out/whitelist.txt'', Str
          ''tmp/output.bus.s''],
       Run [Str ''bustools'', Str ''correct'', Str ''-o'', Str ''tmp/output.bus.s.c'', Str
          ''-w'', Str ''out/whitelist.txt'', Str ''tmp/output.bus.s''],
       Run [Str ''bustools'', Str ''sort'', Str ''-o'', Str ''out/output.unfiltered.bus'',
          Str ''-T'', Str ''tmp'', Str ''-t'', Num 8, Str ''-m'', Str ''4G'', Str
          ''tmp/output.bus.s.c''],
       Ext ''make_directory'' [Str ''out/counts_unfiltered''],
       Run [Str ''bustools'', Str ''count'', Str ''-o'', Str
          ''out/counts_unfiltered/cells_x_tcc'', Str ''-g'', Str ''t2g.txt'', Str ''-e'', Str
          ''out/matrix.ec'', Str ''-t'', Str ''out/transcripts.txt'', Str ''--multimapping'',
          Str ''--cm'', Str ''out/output.unfiltered.bus''],
       Ext ''make_directory'' [Str ''out/quant_unfiltered'']],
      3)"
  by code_simp

end
